theory Spec2Isabelle
  imports Complex_Main
begin

section \<open>Values, errors and job outcomes\<close>

text \<open>
  Timestamps are milliseconds since the epoch (\<open>Date.now()\<close>), as \<open>int\<close>. Chapter numbers
  are decimals (\<open>Prisma.Decimal\<close> in the store, a JS number in the scraper), as \<open>rat\<close>:
  both \<open>toString()\<close> calls of the sync worker print the number canonically, so two keys
  are equal exactly when the numbers are. Strings are byte strings.
\<close>

datatype jsval = JUndefined | JNull | JBool bool | JNumber rat | JString string

datatype js_error =
    ScraperError (isRetryable: bool)
  | Error string
  | TypeError string
  | ReferenceError string

text \<open>A handler either returns (\<open>Inr\<close>) or throws (\<open>Inl\<close>).\<close>

type_synonym 'a outcome = "js_error + 'a"

subsection \<open>Printing numbers in template strings\<close>

definition digit_char :: "nat \<Rightarrow> char" where
  "digit_char d = ''0123456789'' ! d"

fun string_of_nat :: "nat \<Rightarrow> string" where
  "string_of_nat n =
     (if n < 10 then [digit_char n]
      else string_of_nat (n div 10) @ [digit_char (n mod 10)])"

declare string_of_nat.simps [simp del]

definition string_of_int :: "int \<Rightarrow> string" where
  "string_of_int i = (if i < 0 then CHR ''-'' # string_of_nat (nat (- i)) else string_of_nat (nat i))"

section \<open>The persisted tables\<close>

record series_source =
  src_id :: string
  src_series_id :: string
  source_name :: string
  source_id :: string
  source_url :: string
  sync_priority :: string
  next_check_at :: "int option"
  failure_count :: int
  last_checked_at :: "int option"
  last_success_at :: "int option"
  source_chapter_count :: int
  source_title :: "string option"
  match_confidence :: "rat option"
  src_cover_url :: "string option"
  cover_updated_at :: "int option"

record chapter_row =
  series_id :: string
  series_source_id :: string
  chapter_number :: rat
  chapter_title :: "string option"
  chapter_url :: string
  published_at :: "int option"

record notification =
  user_id :: string
  ntype :: string
  ntitle :: string
  message :: string
  nseries_id :: string
  meta_source_id :: string
  meta_chapter_count :: int
  meta_job_id :: string
  created_at :: int

record library_entry =
  le_user_id :: string
  le_series_id :: string
  notify_new_chapters :: bool

record series =
  sid :: string
  title :: string
  mangadex_id :: "string option"
  alternative_titles :: "string list"
  description :: "string option"
  cover_url :: "string option"
  stype :: string
  status :: "string option"
  genres :: "string list"
  content_rating :: "string option"

record db =
  seriesTable :: "series list"
  seriesSource :: "series_source list"
  chapterTable :: "chapter_row list"
  libraryEntry :: "library_entry list"
  notificationTable :: "notification list"

text \<open>
  A table is the list of its rows in the order the store returns them.
  \<open>prisma.seriesSource.findUnique({ where: { id } })\<close> and \<open>update({ where: { id } })\<close>:
\<close>

definition findUnique_source :: "db \<Rightarrow> string \<Rightarrow> series_source option" where
  "findUnique_source d i = find (\<lambda>s. src_id s = i) (seriesSource d)"

definition update_source :: "string \<Rightarrow> (series_source \<Rightarrow> series_source) \<Rightarrow> db \<Rightarrow> db" where
  "update_source i f d =
     d\<lparr>seriesSource := map (\<lambda>s. if src_id s = i then f s else s) (seriesSource d)\<rparr>"

section \<open>Scrapers (src/lib/scrapers/index.ts)\<close>

record scraped_chapter =
  chapterNumber :: rat
  chapterTitle :: "string option"
  chapterUrl :: string
  publishedAt :: "int option"

definition ALLOWED_HOSTS :: "string list" where
  "ALLOWED_HOSTS = [''mangapark.io'', ''www.mangapark.io'', ''mangadex.org'', ''api.mangadex.org'']"

text \<open>
  \<open>validateSourceUrl\<close>: the URL parser of the platform is a parameter, \<open>None\<close> when
  \<open>new URL(url)\<close> throws, otherwise the hostname.
\<close>

definition validateSourceUrl :: "(string \<Rightarrow> string option) \<Rightarrow> string \<Rightarrow> bool" where
  "validateSourceUrl hostname url =
     (case hostname url of None \<Rightarrow> False | Some h \<Rightarrow> h \<in> set ALLOWED_HOSTS)"

text \<open>
  \<open>scrapers[key]\<close> reads a property of a plain object: an own key gives a scraper, a
  name inherited from \<open>Object.prototype\<close> gives a value that is truthy but has no
  \<open>scrapeSeries\<close>, and any other key gives \<open>undefined\<close>.
\<close>

definition object_prototype_keys :: "string list" where
  "object_prototype_keys =
     [''constructor'', ''__proto__'', ''hasOwnProperty'', ''isPrototypeOf'',
      ''propertyIsEnumerable'', ''toString'', ''toLocaleString'', ''valueOf'',
      ''__defineGetter__'', ''__defineSetter__'', ''__lookupGetter__'', ''__lookupSetter__'']"

datatype scraper_lookup = Scraper string | Inherited | Undefined

definition scrapers :: "string \<Rightarrow> scraper_lookup" where
  "scrapers k =
     (if k = ''mangapark'' \<or> k = ''mangadex'' then Scraper k
      else if k \<in> set object_prototype_keys then Inherited
      else Undefined)"

section \<open>Sync worker (processSyncSource)\<close>

definition MAX_CONSECUTIVE_FAILURES :: int where
  "MAX_CONSECUTIVE_FAILURES = 5"

record sync_job_data =
  seriesSourceId :: jsval

text \<open>
  \<open>CheckSourceDataSchema.safeParse\<close>: the field must be a string that is a UUID. The UUID
  test of the schema library is a parameter.
\<close>

definition CheckSourceDataSchema :: "(string \<Rightarrow> bool) \<Rightarrow> sync_job_data \<Rightarrow> string option" where
  "CheckSourceDataSchema uuid data =
     (case seriesSourceId data of
        JString s \<Rightarrow> if uuid s then Some s else None
      | _ \<Rightarrow> None)"

record notification_job_data =
  seriesId :: jsval
  sourceId :: jsval
  newChapterCount :: jsval

text \<open>
  What the handler does to the outside world, in order: a call of a scraper (whether it
  returns or throws) and a job the notification queue accepted.
\<close>

datatype effect =
    ScrapeSeries string string
  | NotificationAdd string notification_job_data

text \<open>
  The environment of one run: the clock, the platform's URL parser, UUID test and
  \<open>String.prototype.toLowerCase\<close>, what the scraper \<open>key\<close> answers for a source id (it
  returns the chapter list or throws), whether the transaction fails, and whether
  \<open>notificationQueue.add\<close> throws.
\<close>

record sync_env =
  now :: int
  hostname :: "string \<Rightarrow> string option"
  is_uuid :: "string \<Rightarrow> bool"
  toLowerCase :: "string \<Rightarrow> string"
  scrapeSeries :: "string \<Rightarrow> string \<Rightarrow> js_error + scraped_chapter list"
  transaction_error :: "js_error option"
  add_error :: "js_error option"

text \<open>\<open>x || null\<close> on an optional string: the empty string is falsy.\<close>

definition or_null :: "string option \<Rightarrow> string option" where
  "or_null x = (case x of Some s \<Rightarrow> if s = [] then None else Some s | None \<Rightarrow> None)"

text \<open>The \<open>for\<close> loop over \<open>scrapedData.chapters\<close> that fills \<open>newChaptersData\<close>.\<close>

fun newChaptersData :: "series_source \<Rightarrow> rat list \<Rightarrow> scraped_chapter list \<Rightarrow> chapter_row list" where
  "newChaptersData source existingNumbers [] = []"
| "newChaptersData source existingNumbers (c # cs) =
     (if chapterNumber c \<notin> set existingNumbers
      then \<lparr>series_id = src_series_id source, series_source_id = src_id source,
            chapter_number = chapterNumber c, chapter_title = or_null (chapterTitle c),
            chapter_url = chapterUrl c, published_at = publishedAt c\<rparr>
           # newChaptersData source existingNumbers cs
      else newChaptersData source existingNumbers cs)"

text \<open>
  Modelled from the spec: the unique key (source record, chapter number) of the chapter
  table; the schema is not among the sources. \<open>createMany\<close> with \<open>skipDuplicates\<close> inserts
  the rows in order and skips a row whose key is already in the table, also when an
  earlier row of the same batch put it there. It returns the table and the number of
  rows inserted.
\<close>

definition same_key :: "chapter_row \<Rightarrow> chapter_row \<Rightarrow> bool" where
  "same_key a b \<longleftrightarrow>
     series_source_id a = series_source_id b \<and> chapter_number a = chapter_number b"

fun createMany_skipDuplicates :: "chapter_row list \<Rightarrow> chapter_row list \<Rightarrow> chapter_row list \<times> nat" where
  "createMany_skipDuplicates tbl [] = (tbl, 0)"
| "createMany_skipDuplicates tbl (r # rs) =
     (if list_ex (same_key r) tbl then createMany_skipDuplicates tbl rs
      else (let (tbl', n) = createMany_skipDuplicates (tbl @ [r]) rs in (tbl', Suc n)))"

text \<open>The body of \<open>prisma.$transaction\<close>: it returns the inserted count.\<close>

definition existingNumbers :: "db \<Rightarrow> series_source \<Rightarrow> rat list" where
  "existingNumbers d source =
     map chapter_number (filter (\<lambda>c. series_source_id c = src_id source) (chapterTable d))"

definition sync_transaction :: "int \<Rightarrow> series_source \<Rightarrow> scraped_chapter list \<Rightarrow> db \<Rightarrow> db \<times> nat" where
  "sync_transaction t source scraped d =
     (let new = newChaptersData source (existingNumbers d source) scraped;
          (tbl, insertedCount) =
             (if length new > 0 then createMany_skipDuplicates (chapterTable d) new
              else (chapterTable d, 0));
          d1 = d\<lparr>chapterTable := tbl\<rparr>;
          d2 = update_source (src_id source)
                 (\<lambda>s. s\<lparr>last_checked_at := Some t, last_success_at := Some t,
                         source_chapter_count := source_chapter_count s + int insertedCount,
                         failure_count := 0\<rparr>) d1
      in (d2, insertedCount))"

text \<open>The \<open>catch\<close> block: count the failure, then rethrow only a retryable error.\<close>

definition error_isRetryable :: "js_error \<Rightarrow> bool" where
  "error_isRetryable e = (case e of ScraperError r \<Rightarrow> r | _ \<Rightarrow> True)"

definition sync_catch ::
  "int \<Rightarrow> series_source \<Rightarrow> js_error \<Rightarrow> db \<Rightarrow> effect list \<Rightarrow> unit outcome \<times> db \<times> effect list" where
  "sync_catch t source e d effs =
     (let d' = update_source (src_id source)
                 (\<lambda>s. s\<lparr>last_checked_at := Some t, failure_count := failure_count s + 1\<rparr>) d
      in (if error_isRetryable e then Inl e else Inr (), d', effs))"

definition notification_job ::
  "int \<Rightarrow> series_source \<Rightarrow> nat \<Rightarrow> effect" where
  "notification_job t source result =
     NotificationAdd (''notify-'' @ src_series_id source @ ''-'' @ string_of_int t)
       \<lparr>seriesId = JString (src_series_id source), sourceId = JString (src_id source),
        newChapterCount = JNumber (of_nat result)\<rparr>"

definition processSyncSource ::
  "sync_env \<Rightarrow> sync_job_data \<Rightarrow> db \<Rightarrow> unit outcome \<times> db \<times> effect list" where
  "processSyncSource env data d =
     (case CheckSourceDataSchema (is_uuid env) data of
        None \<Rightarrow> (Inl (Error ''Invalid job payload''), d, [])
      | Some i \<Rightarrow>
     (case findUnique_source d i of
        None \<Rightarrow> (Inr (), d, [])
      | Some source \<Rightarrow>
          if failure_count source \<ge> MAX_CONSECUTIVE_FAILURES then
            (Inr (),
             update_source (src_id source)
               (\<lambda>s. s\<lparr>sync_priority := ''COLD'',
                       next_check_at := Some (now env + 24 * 60 * 60 * 1000)\<rparr>) d,
             [])
          else if \<not> validateSourceUrl (hostname env) (source_url source) then
            (Inr (),
             update_source (src_id source)
               (\<lambda>s. s\<lparr>failure_count := failure_count s + 1,
                       last_checked_at := Some (now env)\<rparr>) d,
             [])
          else
            (case scrapers (toLowerCase env (source_name source)) of
               Undefined \<Rightarrow> (Inr (), d, [])
             | Inherited \<Rightarrow>
                 sync_catch (now env) source (TypeError ''scraper.scrapeSeries is not a function'') d []
             | Scraper k \<Rightarrow>
                 (let effs = [ScrapeSeries k (source_id source)] in
                  case scrapeSeries env k (source_id source) of
                    Inl e \<Rightarrow> sync_catch (now env) source e d effs
                  | Inr chapters \<Rightarrow>
                      (case transaction_error env of
                         Some e \<Rightarrow> sync_catch (now env) source e d effs
                       | None \<Rightarrow>
                           (let (d', result) = sync_transaction (now env) source chapters d in
                            if result > 0 then
                              (case add_error env of
                                 Some e \<Rightarrow> sync_catch (now env) source e d' effs
                               | None \<Rightarrow>
                                   (Inr (), d', effs @ [notification_job (now env) source result]))
                            else (Inr (), d', effs)))))))"

text \<open>The failure counter stored for a source id, if the source exists.\<close>

definition failure_count_of :: "db \<Rightarrow> string \<Rightarrow> int option" where
  "failure_count_of d i = map_option failure_count (findUnique_source d i)"

text \<open>
  Successive runs of the handler, each with its own environment and payload, on the store
  the previous run left. The outcomes, the final store and all effects are returned.
\<close>

fun sync_attempts ::
  "(sync_env \<times> sync_job_data) list \<Rightarrow> db \<Rightarrow> unit outcome list \<times> db \<times> effect list" where
  "sync_attempts [] d = ([], d, [])"
| "sync_attempts (j # js) d =
     (let (out, d1, effs) = processSyncSource (fst j) (snd j) d;
          (outs, d2, effs') = sync_attempts js d1
      in (out # outs, d2, effs @ effs'))"

section \<open>Canonicalization worker (processCanonicalize)\<close>

record canonicalize_job_data =
  job_title :: string
  job_source_name :: string
  job_source_id :: string
  job_source_url :: string
  job_mangadex_id :: "string option"
  job_alternative_titles :: "string list option"
  job_description :: "string option"
  job_cover_url :: "string option"
  job_type :: string
  job_status :: "string option"
  job_genres :: "string list option"
  job_content_rating :: "string option"
  job_confidence :: "rat option"

text \<open>
  Optional strings: \<open>None\<close> is \<open>null\<close> in a stored row and \<open>undefined\<close> (absent) in a job
  payload. \<open>truthy\<close> is JavaScript's truthiness, \<open>js_or a b\<close> is \<open>a || b\<close>, and
  \<open>prisma_set v old\<close> is the stored value after an update whose data holds \<open>v\<close>:
  \<open>undefined\<close> leaves the column as it is.
\<close>

definition truthy :: "string option \<Rightarrow> bool" where
  "truthy x = (case x of Some s \<Rightarrow> s \<noteq> [] | None \<Rightarrow> False)"

definition js_or :: "string option \<Rightarrow> string option \<Rightarrow> string option" where
  "js_or a b = (if truthy a then a else b)"

definition prisma_set :: "'a option \<Rightarrow> 'a option \<Rightarrow> 'a option" where
  "prisma_set v old = (case v of None \<Rightarrow> old | Some x \<Rightarrow> Some x)"

text \<open>\<open>Array.from(new Set(xs))\<close>: the first occurrence of each element, in order.\<close>

definition array_from_set :: "'a list \<Rightarrow> 'a list" where
  "array_from_set xs = fold (\<lambda>x acc. if x \<in> set acc then acc else acc @ [x]) xs []"

definition default_list :: "'a list option \<Rightarrow> 'a list" where
  "default_list x = (case x of None \<Rightarrow> [] | Some xs \<Rightarrow> xs)"

text \<open>
  The match cascade: external catalog id, then source link, then title. The store's
  case-insensitive equality (\<open>mode: 'insensitive'\<close>) is a parameter.
\<close>

definition match_series ::
  "(string \<Rightarrow> string \<Rightarrow> bool) \<Rightarrow> db \<Rightarrow> canonicalize_job_data \<Rightarrow> series option" where
  "match_series equals_insensitive d job =
     (let by_mangadex_id =
            (if truthy (job_mangadex_id job)
             then find (\<lambda>s. mangadex_id s = job_mangadex_id job) (seriesTable d)
             else None);
          by_source =
            (case by_mangadex_id of
               Some s \<Rightarrow> Some s
             | None \<Rightarrow>
                 (case find (\<lambda>r. source_name r = job_source_name job \<and>
                                  source_id r = job_source_id job) (seriesSource d) of
                    None \<Rightarrow> None
                  | Some existingSource \<Rightarrow>
                      find (\<lambda>s. sid s = src_series_id existingSource) (seriesTable d)))
      in case by_source of
           Some s \<Rightarrow> Some s
         | None \<Rightarrow>
             find (\<lambda>s. equals_insensitive (title s) (job_title job)) (seriesTable d))"

definition mergedAltTitles :: "series option \<Rightarrow> canonicalize_job_data \<Rightarrow> string list" where
  "mergedAltTitles s job =
     array_from_set
       ((case s of None \<Rightarrow> [] | Some x \<Rightarrow> alternative_titles x)
        @ default_list (job_alternative_titles job) @ [job_title job])"

text \<open>The data of \<open>tx.series.update\<close>, computed from the matched row, applied to a row.\<close>

definition shouldUpdateCover :: "series \<Rightarrow> canonicalize_job_data \<Rightarrow> bool" where
  "shouldUpdateCover s job \<longleftrightarrow>
     truthy (job_cover_url job) \<and> (\<not> truthy (cover_url s) \<or> job_source_name job = ''mangadex'')"

definition merge_series :: "series \<Rightarrow> canonicalize_job_data \<Rightarrow> series \<Rightarrow> series" where
  "merge_series s job row =
     row\<lparr>mangadex_id := prisma_set (js_or (mangadex_id s) (job_mangadex_id job)) (mangadex_id row),
         description := prisma_set (js_or (description s) (job_description job)) (description row),
         cover_url := prisma_set (if shouldUpdateCover s job then job_cover_url job else cover_url s)
                        (cover_url row),
         alternative_titles := mergedAltTitles (Some s) job,
         status := prisma_set (js_or (status s) (job_status job)) (status row),
         genres := (if length (genres s) > 0 then genres s else default_list (job_genres job)),
         content_rating :=
           prisma_set (js_or (job_content_rating job) (content_rating s)) (content_rating row)\<rparr>"

definition create_series :: "string \<Rightarrow> canonicalize_job_data \<Rightarrow> series" where
  "create_series new_id job =
     \<lparr>sid = new_id, title = job_title job, mangadex_id = job_mangadex_id job,
      alternative_titles = mergedAltTitles None job, description = job_description job,
      cover_url = job_cover_url job, stype = job_type job, status = job_status job,
      genres = default_list (job_genres job), content_rating = job_content_rating job\<rparr>"

text \<open>
  \<open>tx.seriesSource.upsert\<close> on the key (source name, source-native id). The columns a new
  row does not get from the \<open>create\<close> data take their defaults; the schema is not among the
  sources, so the defaults here (no timestamps, zero counters) are an assumption no
  theorem below relies on.
\<close>

definition upsert_source ::
  "int \<Rightarrow> string \<Rightarrow> string \<Rightarrow> canonicalize_job_data \<Rightarrow> series_source list \<Rightarrow> series_source list" where
  "upsert_source t new_id series_id' job tbl =
     (if list_ex (\<lambda>r. source_name r = job_source_name job \<and> source_id r = job_source_id job) tbl
      then map (\<lambda>r. if source_name r = job_source_name job \<and> source_id r = job_source_id job
                    then r\<lparr>src_series_id := series_id', source_url := job_source_url job,
                           source_title := Some (job_title job),
                           match_confidence := prisma_set (job_confidence job) (match_confidence r),
                           src_cover_url :=
                             (if truthy (job_cover_url job) then job_cover_url job
                              else src_cover_url r),
                           cover_updated_at :=
                             (if truthy (job_cover_url job) then Some t else cover_updated_at r)\<rparr>
                    else r) tbl
      else tbl @
        [\<lparr>src_id = new_id, src_series_id = series_id', source_name = job_source_name job,
          source_id = job_source_id job, source_url = job_source_url job,
          sync_priority = ''COLD'', next_check_at = None, failure_count = 0,
          last_checked_at = None, last_success_at = None, source_chapter_count = 0,
          source_title = Some (job_title job), match_confidence = job_confidence job,
          src_cover_url = (if truthy (job_cover_url job) then job_cover_url job else None),
          cover_updated_at = (if truthy (job_cover_url job) then Some t else None)\<rparr>])"

record canon_env =
  c_now :: int
  title_equals_insensitive :: "string \<Rightarrow> string \<Rightarrow> bool"
  new_series_id :: string
  new_source_id :: string
  c_transaction_error :: "js_error option"
  broadcast_error :: "js_error option"

record canon_result =
  result_series :: series
  created :: bool

text \<open>The body of the transaction: the resolved series, the flag, and the new store.\<close>

definition canonicalize_transaction ::
  "canon_env \<Rightarrow> canonicalize_job_data \<Rightarrow> db \<Rightarrow> canon_result \<times> db" where
  "canonicalize_transaction env job d =
     (case match_series (title_equals_insensitive env) d job of
        Some s \<Rightarrow>
          (let d1 = d\<lparr>seriesTable :=
                      map (\<lambda>row. if sid row = sid s then merge_series s job row else row)
                        (seriesTable d)\<rparr>;
               s' = merge_series s job s
           in (\<lparr>result_series = s', created = False\<rparr>,
               d1\<lparr>seriesSource :=
                    upsert_source (c_now env) (new_source_id env) (sid s') job (seriesSource d1)\<rparr>))
      | None \<Rightarrow>
          (let s' = create_series (new_series_id env) job;
               d1 = d\<lparr>seriesTable := seriesTable d @ [s']\<rparr>
           in (\<lparr>result_series = s', created = True\<rparr>,
               d1\<lparr>seriesSource :=
                    upsert_source (c_now env) (new_source_id env) (sid s') job (seriesSource d1)\<rparr>)))"

record series_available =
  ev_series_id :: string
  ev_mangadex_id :: "string option"
  ev_title :: string
  ev_created :: bool

text \<open>
  The handler: the transaction, then the broadcast inside its own \<open>try\<close>/\<open>catch\<close>. The
  third component lists the events that were delivered.
\<close>

definition processCanonicalize ::
  "canon_env \<Rightarrow> canonicalize_job_data \<Rightarrow> db \<Rightarrow> (string \<times> bool) outcome \<times> db \<times> series_available list" where
  "processCanonicalize env job d =
     (case c_transaction_error env of
        Some e \<Rightarrow> (Inl e, d, [])
      | None \<Rightarrow>
          (let (r, d') = canonicalize_transaction env job d;
               event = \<lparr>ev_series_id = sid (result_series r), ev_mangadex_id = job_mangadex_id job,
                        ev_title = title (result_series r), ev_created = created r\<rparr>
           in (Inr (sid (result_series r), created r), d',
               case broadcast_error env of None \<Rightarrow> [event] | Some e \<Rightarrow> [])))"

section \<open>Notification worker (processNotification)\<close>

definition is_integer :: "rat \<Rightarrow> bool" where
  "is_integer r \<longleftrightarrow> of_int \<lfloor>r\<rfloor> = r"

text \<open>
  \<open>NotificationJobDataSchema.safeParse\<close>: two UUID strings and a positive integer. The
  parsed payload is (seriesId, sourceId, newChapterCount).
\<close>

definition NotificationJobDataSchema ::
  "(string \<Rightarrow> bool) \<Rightarrow> notification_job_data \<Rightarrow> (string \<times> string \<times> int) option" where
  "NotificationJobDataSchema uuid data =
     (case seriesId data of
        JString a \<Rightarrow>
          (case sourceId data of
             JString b \<Rightarrow>
               (case newChapterCount data of
                  JNumber n \<Rightarrow>
                    if uuid a \<and> uuid b \<and> is_integer n \<and> n > 0 then Some (a, b, \<lfloor>n\<rfloor>) else None
                | _ \<Rightarrow> None)
           | _ \<Rightarrow> None)
      | _ \<Rightarrow> None)"

record notification_env =
  n_now :: int
  n_is_uuid :: "string \<Rightarrow> bool"
  job_id :: string

definition idempotency_window_ms :: int where
  "idempotency_window_ms = 5 * 60 * 1000"

definition notification_message :: "int \<Rightarrow> string \<Rightarrow> string" where
  "notification_message n t =
     string_of_int n @ '' new chapter'' @ (if n > 1 then ''s'' else []) @ '' for ''
       @ [CHR 0x22] @ t @ [CHR 0x22] @ ''!''"

definition subscribers :: "db \<Rightarrow> string \<Rightarrow> library_entry list" where
  "subscribers d series_id' =
     filter (\<lambda>e. le_series_id e = series_id' \<and> notify_new_chapters e) (libraryEntry d)"

definition existingNotifications :: "int \<Rightarrow> db \<Rightarrow> string \<Rightarrow> notification list" where
  "existingNotifications t d series_id' =
     filter (\<lambda>x. nseries_id x = series_id' \<and> ntype x = ''NEW_CHAPTER'' \<and>
                 created_at x \<ge> t - idempotency_window_ms) (notificationTable d)"

text \<open>
  The rows handed to \<open>createMany\<close>. Modelled from the spec: the created timestamp of a
  notification. The data does not set it and the schema is not among the sources; it is
  the time of the insert, read from the same clock as the window.
\<close>

definition notificationsToCreate ::
  "notification_env \<Rightarrow> string \<Rightarrow> string \<Rightarrow> int \<Rightarrow> series \<Rightarrow> db \<Rightarrow> notification list" where
  "notificationsToCreate env series_id' source_id' n s d =
     (let alreadyNotifiedUsers = map user_id (existingNotifications (n_now env) d series_id')
      in map (\<lambda>sub. \<lparr>user_id = le_user_id sub, ntype = ''NEW_CHAPTER'',
                       ntitle = ''New Chapter Available'',
                       message = notification_message n (title s), nseries_id = series_id',
                       meta_source_id = source_id', meta_chapter_count = n,
                       meta_job_id = job_id env, created_at = n_now env\<rparr>)
           (filter (\<lambda>sub. le_user_id sub \<notin> set alreadyNotifiedUsers) (subscribers d series_id')))"

definition processNotification ::
  "notification_env \<Rightarrow> notification_job_data \<Rightarrow> db \<Rightarrow> unit outcome \<times> db" where
  "processNotification env data d =
     (case NotificationJobDataSchema (n_is_uuid env) data of
        None \<Rightarrow> (Inr (), d)
      | Some (series_id', source_id', n) \<Rightarrow>
          (case find (\<lambda>s. sid s = series_id') (seriesTable d) of
             None \<Rightarrow> (Inr (), d)
           | Some s \<Rightarrow>
               if length (subscribers d series_id') = 0 then (Inr (), d)
               else
                 (let new = notificationsToCreate env series_id' source_id' n s d
                  in if length new = 0 then (Inr (), d)
                     else (Inr (), d\<lparr>notificationTable := notificationTable d @ new\<rparr>))))"

text \<open>
  The invariant of the notification table: two different rows of type NEW_CHAPTER for the
  same user and series are more than the window apart.
\<close>

definition window_clash :: "notification \<Rightarrow> notification \<Rightarrow> bool" where
  "window_clash x y \<longleftrightarrow>
     user_id x = user_id y \<and> nseries_id x = nseries_id y \<and>
     ntype x = ''NEW_CHAPTER'' \<and> ntype y = ''NEW_CHAPTER'' \<and>
     \<bar>created_at x - created_at y\<bar> \<le> idempotency_window_ms"

fun no_window_duplicates :: "notification list \<Rightarrow> bool" where
  "no_window_duplicates [] = True"
| "no_window_duplicates (x # xs) = (\<not> list_ex (window_clash x) xs \<and> no_window_duplicates xs)"

text \<open>
  The handler awaits its reads and its insert separately: no transaction and no lock spans
  them. \<open>notification_plan\<close> is the handler up to the insert (lines 19 to 85): the rows it
  is about to create, none when it returns early. \<open>createMany_notifications\<close> is the
  insert (lines 87 to 89).
\<close>

definition notification_plan ::
  "notification_env \<Rightarrow> notification_job_data \<Rightarrow> db \<Rightarrow> notification list" where
  "notification_plan env data d =
     (case NotificationJobDataSchema (n_is_uuid env) data of
        None \<Rightarrow> []
      | Some (series_id', source_id', n) \<Rightarrow>
          (case find (\<lambda>s. sid s = series_id') (seriesTable d) of
             None \<Rightarrow> []
           | Some s \<Rightarrow>
               if length (subscribers d series_id') = 0 then []
               else notificationsToCreate env series_id' source_id' n s d))"

definition createMany_notifications :: "notification list \<Rightarrow> db \<Rightarrow> db" where
  "createMany_notifications rows d =
     (if length rows = 0 then d else d\<lparr>notificationTable := notificationTable d @ rows\<rparr>)"

text \<open>
  Two jobs whose handlers overlap, as the notification worker allows (it runs up to 10
  handlers at a time, and the keys of notification jobs differ by their timestamp): both
  handlers have done their reads on the store \<open>d\<close> before either insert happens.
\<close>

definition overlapping_notifications ::
  "notification_env \<Rightarrow> notification_job_data \<Rightarrow> notification_env \<Rightarrow> notification_job_data
     \<Rightarrow> db \<Rightarrow> db" where
  "overlapping_notifications env1 data1 env2 data2 d =
     (let rows1 = notification_plan env1 data1 d;
          rows2 = notification_plan env2 data2 d
      in createMany_notifications rows2 (createMany_notifications rows1 d))"

section \<open>Health and backpressure gate (areWorkersOnline, isQueueHealthy)\<close>

text \<open>
  What the coordination store answers during one check: whether it became ready within the
  wait, what \<open>redis.get\<close> of the heartbeat key gives (it throws, or returns \<open>null\<close> or the
  stored text), the platform's \<open>parseInt\<close> (\<open>None\<close> is NaN), and the clock.
\<close>

record redis_env =
  redisReady :: bool
  heartbeat :: "js_error + string option"
  parseInt :: "string \<Rightarrow> int option"
  r_now :: int

definition areWorkersOnline :: "redis_env \<Rightarrow> bool" where
  "areWorkersOnline env =
     (if \<not> redisReady env then False
      else case heartbeat env of
             Inl err \<Rightarrow> False
           | Inr None \<Rightarrow> False
           | Inr (Some hb) \<Rightarrow>
               if hb = [] then False
               else (case parseInt env hb of
                       None \<Rightarrow> False
                     | Some lastBeat \<Rightarrow> r_now env - lastBeat < 15000))"

text \<open>\<open>queue.getJobCounts('waiting', 'active', 'delayed')\<close> throws or gives the three counts.\<close>

definition isQueueHealthy :: "js_error + (nat \<times> nat \<times> nat) \<Rightarrow> nat \<Rightarrow> bool" where
  "isQueueHealthy counts threshold =
     (case counts of
        Inl err \<Rightarrow> False
      | Inr (waiting, active, delayed) \<Rightarrow> waiting + active + delayed < threshold)"

section \<open>Search route (GET /api/series/search), after the local query\<close>

text \<open>
  The handler from intent detection on (route.ts lines 158 to 321). Its inputs are the
  sanitized query, the paging parameters, the local results with their total count, and
  the detected intent. Analytics events are not modelled.
\<close>

record 'r search_response =
  resp_status :: "string option"
  resp_results :: "'r list"
  resp_total :: nat
  resp_limit :: nat
  resp_offset :: nat
  resp_has_more :: bool
  resp_query :: "string option"
  resp_message :: "string option"

datatype search_effect =
    CheckSourceAdd string nat string string
  | CooldownSet string nat

record search_env =
  cooldown :: "string option"
  workers :: redis_env
  jobCounts :: "js_error + (nat \<times> nat \<times> nat)"
  queue_add_error :: "js_error option"
  cooldown_set_error :: "js_error option"
  queryHash :: "string \<Rightarrow> string"
  cooldownKey :: "string \<Rightarrow> string"

definition base_response :: "'r list \<Rightarrow> nat \<Rightarrow> nat \<Rightarrow> nat \<Rightarrow> 'r search_response" where
  "base_response results cnt lmt off =
     \<lparr>resp_status = None, resp_results = results, resp_total = cnt, resp_limit = lmt,
      resp_offset = off, resp_has_more = (off + length results < cnt),
      resp_query = None, resp_message = None\<rparr>"

definition GET ::
  "search_env \<Rightarrow> string option \<Rightarrow> string \<Rightarrow> 'r list \<Rightarrow> nat \<Rightarrow> nat \<Rightarrow> nat
     \<Rightarrow> 'r search_response \<times> search_effect list" where
  "GET env query intent results cnt lmt off =
     (if intent = ''NOISE'' then
        (base_response results cnt lmt off
           \<lparr>resp_message := (if truthy query then Some ''Query too short or invalid'' else None)\<rparr>,
         [])
      else if truthy query \<and> off = 0 then
        (if truthy (cooldown env) then
           (base_response results cnt lmt off
              \<lparr>resp_status := Some ''complete'', resp_message := Some ''Results are up to date.''\<rparr>,
            [])
         else
           (let workersOnline = areWorkersOnline (workers env);
                queueHealthy = isQueueHealthy (jobCounts env) 5000
            in if \<not> workersOnline \<or> \<not> queueHealthy then
                 (base_response results cnt lmt off
                    \<lparr>resp_status := Some ''resolving_unavailable'',
                     resp_message := Some
                       ''External search is temporarily unavailable due to high load. Try again later.''\<rparr>,
                  [])
               else
                 (let jobPriority = (if intent = ''KEYWORD_EXPLORATION'' then 5 else 1);
                      jobId = ''search_'' @ queryHash env (the query);
                      unavailable = base_response results cnt lmt off
                        \<lparr>resp_status := Some ''resolving_unavailable'',
                         resp_message := Some ''External search is temporarily unavailable.''\<rparr>
                  in case queue_add_error env of
                       Some err \<Rightarrow> (unavailable, [])
                     | None \<Rightarrow>
                         (case cooldown_set_error env of
                            Some err \<Rightarrow>
                              (unavailable, [CheckSourceAdd jobId jobPriority (the query) intent])
                          | None \<Rightarrow>
                              (base_response results cnt lmt off
                                 \<lparr>resp_status := Some ''resolving'', resp_query := query,
                                  resp_message := Some
                                    ''Searching external sources for more results...''\<rparr>,
                               [CheckSourceAdd jobId jobPriority (the query) intent,
                                CooldownSet (cooldownKey env (the query)) 30])))))
      else (base_response results cnt lmt off, []))"

section \<open>Master scheduler (runMasterScheduler)\<close>

text \<open>\<open>SYNC_INTERVALS\<close>, in milliseconds, by its own keys.\<close>

definition SYNC_INTERVALS :: "string \<Rightarrow> int option" where
  "SYNC_INTERVALS k =
     (if k = ''HOT'' then Some (15 * 60 * 1000)
      else if k = ''WARM'' then Some (2 * 60 * 60 * 1000)
      else if k = ''COLD'' then Some (24 * 60 * 60 * 1000)
      else None)"

record sync_queue_job =
  job_name :: string
  job_seriesSourceId :: string
  jobId :: string
  priority :: nat

text \<open>\<open>updatesByPriority\<close>: the three arrays of source ids, in the order of its keys.\<close>

record updatesByPriority =
  HOT :: "string list"
  WARM :: "string list"
  COLD :: "string list"

definition due :: "int \<Rightarrow> series_source \<Rightarrow> bool" where
  "due t s = (case next_check_at s of None \<Rightarrow> True | Some c \<Rightarrow> c \<le> t)"

text \<open>
  \<open>findMany\<close> with \<open>take: 50\<close> and no ordering: the first 50 due rows in the order the
  store returns them, which is the order of the table here.
\<close>

definition sourcesToUpdate :: "int \<Rightarrow> db \<Rightarrow> series_source list" where
  "sourcesToUpdate t d = take 50 (filter (due t) (seriesSource d))"

definition sync_job_for :: "int \<Rightarrow> series_source \<Rightarrow> sync_queue_job" where
  "sync_job_for t s =
     \<lparr>job_name = ''sync-'' @ src_id s, job_seriesSourceId = src_id s,
      jobId = ''sync-'' @ src_id s @ ''-'' @ string_of_int t,
      priority = (if sync_priority s = ''HOT'' then 1 else if sync_priority s = ''WARM'' then 2 else 3)\<rparr>"

text \<open>
  The callback of \<open>sourcesToUpdate.map\<close>, source by source. \<open>updatesByPriority[priority]\<close>
  is truthy for the three own keys and for every name inherited from \<open>Object.prototype\<close>;
  an inherited value has no \<open>push\<close>, so the call throws a TypeError and the run ends
  there. Any other tier goes to the COLD array.
\<close>

fun group_and_build ::
  "int \<Rightarrow> series_source list \<Rightarrow> updatesByPriority
     \<Rightarrow> js_error + (sync_queue_job list \<times> updatesByPriority)" where
  "group_and_build t [] b = Inr ([], b)"
| "group_and_build t (s # ss) b =
     (if sync_priority s \<in> set object_prototype_keys
      then Inl (TypeError ''updatesByPriority[priority].push is not a function'')
      else
        (let b' = (if sync_priority s = ''HOT'' then b\<lparr>HOT := HOT b @ [src_id s]\<rparr>
                   else if sync_priority s = ''WARM'' then b\<lparr>WARM := WARM b @ [src_id s]\<rparr>
                   else b\<lparr>COLD := COLD b @ [src_id s]\<rparr>)
         in case group_and_build t ss b' of
              Inl e \<Rightarrow> Inl e
            | Inr (jobs, b'') \<Rightarrow> Inr (sync_job_for t s # jobs, b'')))"

text \<open>\<open>prisma.seriesSource.updateMany({ where: { id: { in: ids } }, data: { next_check_at } })\<close>.\<close>

definition updateMany_next_check :: "string list \<Rightarrow> int \<Rightarrow> db \<Rightarrow> db" where
  "updateMany_next_check ids nextCheck d =
     d\<lparr>seriesSource :=
         map (\<lambda>s. if src_id s \<in> set ids then s\<lparr>next_check_at := Some nextCheck\<rparr> else s)
           (seriesSource d)\<rparr>"

definition interval_for :: "string \<Rightarrow> int" where
  "interval_for k = (case SYNC_INTERVALS k of Some i \<Rightarrow> i | None \<Rightarrow> 24 * 60 * 60 * 1000)"

definition batch_updates :: "int \<Rightarrow> updatesByPriority \<Rightarrow> db \<Rightarrow> db" where
  "batch_updates t b d =
     fold (\<lambda>(k, ids) d'. if length ids > 0
                           then updateMany_next_check ids (t + interval_for k) d' else d')
       [(''HOT'', HOT b), (''WARM'', WARM b), (''COLD'', COLD b)] d"

text \<open>
  One run at time \<open>t\<close>. \<open>addBulk_error\<close> says whether \<open>syncSourceQueue.addBulk\<close> throws. The
  third component is the list of jobs handed to the queue.
\<close>

definition runMasterScheduler ::
  "int \<Rightarrow> js_error option \<Rightarrow> db \<Rightarrow> unit outcome \<times> db \<times> sync_queue_job list" where
  "runMasterScheduler t addBulk_error d =
     (let selected = sourcesToUpdate t d in
      if length selected = 0 then (Inr (), d, [])
      else
        (case group_and_build t selected \<lparr>HOT = [], WARM = [], COLD = []\<rparr> of
           Inl e \<Rightarrow> (Inl e, d, [])
         | Inr (jobs, b) \<Rightarrow>
             (case addBulk_error of
                Some e \<Rightarrow> (Inl e, d, [])
              | None \<Rightarrow> (Inr (), batch_updates t b d, jobs))))"

section \<open>Discovery worker (processCheckSource)\<close>

record check_source_job_data =
  cs_query :: "string option"
  cs_series_id :: "string option"
  cs_intent :: "string option"
  cs_trigger :: "string option"

record candidate =
  cand_mangadex_id :: string
  cand_title :: string
  cand_title_lang :: string
  cand_alternative_titles :: "(string \<times> string) list"
  cand_original_language :: string
  cand_description :: string
  cand_status :: string
  cand_type :: string
  cand_genres :: "string list"
  cand_content_rating :: "string option"
  cand_cover_url :: "string option"
  cand_follows :: "rat option"
  cand_rating :: "rat option"

record ranked_candidate = candidate +
  confidence :: rat
  score :: int

definition PAGE_LIMIT :: nat where
  "PAGE_LIMIT = 32"

definition MAX_PAGES :: nat where
  "MAX_PAGES = 3"

text \<open>
  One request to the external catalog: a rate-limit response, another failing status, a
  thrown network error, or a page of results. Each result of a page stands for the
  candidate the loop body builds from it (titles, cover, genres, statistics), or for the
  error it throws on a malformed result.
\<close>

datatype page_response =
    RateLimited
  | NotOk nat
  | FetchThrows
  | Page "(js_error + candidate) list"

fun push_results :: "(js_error + candidate) list \<Rightarrow> candidate list \<Rightarrow> candidate list \<times> bool" where
  "push_results [] acc = (acc, False)"
| "push_results (Inl e # rs) acc = (acc, True)"
| "push_results (Inr c # rs) acc = push_results rs (acc @ [c])"

text \<open>The \<open>for\<close> loop over pages; the first argument counts the pages still allowed.\<close>

fun fetch_pages :: "nat \<Rightarrow> (nat \<Rightarrow> page_response) \<Rightarrow> nat \<Rightarrow> candidate list \<Rightarrow> candidate list" where
  "fetch_pages 0 fetch page acc = acc"
| "fetch_pages (Suc k) fetch page acc =
     (case fetch page of
        RateLimited \<Rightarrow> acc
      | NotOk st \<Rightarrow> acc
      | FetchThrows \<Rightarrow> acc
      | Page results \<Rightarrow>
          if length results = 0 then acc
          else (case push_results results acc of
                  (acc', threw) \<Rightarrow>
                    if threw then acc'
                    else if length results < PAGE_LIMIT then acc'
                    else fetch_pages k fetch (page + 1) acc'))"

text \<open>
  \<open>new Map(entries)\<close>: a key keeps the position of its first entry and the value of its
  last one.
\<close>

definition map_set :: "'k \<Rightarrow> 'v \<Rightarrow> ('k \<times> 'v) list \<Rightarrow> ('k \<times> 'v) list" where
  "map_set k v m =
     (if k \<in> fst ` set m then map (\<lambda>(k', v'). if k' = k then (k', v) else (k', v')) m
      else m @ [(k, v)])"

definition new_Map :: "('k \<times> 'v) list \<Rightarrow> ('k \<times> 'v) list" where
  "new_Map entries = fold (\<lambda>(k, v) m. map_set k v m) entries []"

definition uniqueCandidates :: "candidate list \<Rightarrow> candidate list" where
  "uniqueCandidates candidates =
     map snd (new_Map (map (\<lambda>c. (cand_mangadex_id c, c)) candidates))"

definition rankedCandidates :: "candidate list \<Rightarrow> ranked_candidate list" where
  "rankedCandidates unique =
     map (\<lambda>(c, index). candidate.extend c
            (ranked_candidate.fields 100 (int (length unique) - int index)))
       (zip unique [0..<length unique])"

record canon_add =
  add_jobId :: string
  add_priority :: nat
  add_data :: canonicalize_job_data

definition canon_job_for :: "string option \<Rightarrow> ranked_candidate \<Rightarrow> canon_add" where
  "canon_job_for trigger c =
     \<lparr>add_jobId = ''canon_mangadex_'' @ cand_mangadex_id c,
      add_priority = (if trigger = Some ''user_search'' then 1 else 10),
      add_data =
        \<lparr>job_title = cand_title c, job_source_name = ''mangadex'',
         job_source_id = cand_mangadex_id c,
         job_source_url = ''https://mangadex.org/title/'' @ cand_mangadex_id c,
         job_mangadex_id = Some (cand_mangadex_id c),
         job_alternative_titles = Some (map fst (cand_alternative_titles c)),
         job_description = Some (cand_description c), job_cover_url = cand_cover_url c,
         job_type = cand_type c, job_status = Some (cand_status c),
         job_genres = Some (cand_genres c), job_content_rating = cand_content_rating c,
         job_confidence = Some (confidence c)\<rparr>\<rparr>"

text \<open>
  The loop of \<open>canonicalizeQueue.add\<close> calls: it stops at the first call that throws. The
  calls that returned are listed.
\<close>

fun enqueue_all ::
  "(canon_add \<Rightarrow> js_error option) \<Rightarrow> canon_add list \<Rightarrow> js_error option \<times> canon_add list" where
  "enqueue_all add_err [] = (None, [])"
| "enqueue_all add_err (j # js) =
     (case add_err j of
        Some e \<Rightarrow> (Some e, [])
      | None \<Rightarrow> (case enqueue_all add_err js of (r, added) \<Rightarrow> (r, j # added)))"

definition candidates :: "(string \<Rightarrow> nat \<Rightarrow> page_response) \<Rightarrow> string \<Rightarrow> candidate list" where
  "candidates fetch term = fetch_pages MAX_PAGES (fetch term) 0 []"

definition searchTerm :: "check_source_job_data \<Rightarrow> db \<Rightarrow> string option" where
  "searchTerm data d =
     (if \<not> truthy (cs_query data) \<and> truthy (cs_series_id data)
      then map_option title (find (\<lambda>s. Some (sid s) = cs_series_id data) (seriesTable d))
      else cs_query data)"

text \<open>
  The statements of the handler from the page loop to its \<open>return\<close> (lines 63 to 217,
  line 68 apart). \<open>fetch\<close> gives, for a search term, the catalog's answer to each page
  request. The result is the number of candidates found, or the error an enqueue call
  threw, together with the canonicalization jobs that were added.
\<close>

definition discover ::
  "(string \<Rightarrow> nat \<Rightarrow> page_response) \<Rightarrow> (canon_add \<Rightarrow> js_error option)
     \<Rightarrow> string option \<Rightarrow> string \<Rightarrow> nat outcome \<times> canon_add list" where
  "discover fetch add_err trigger term =
     (let ranked = rankedCandidates (uniqueCandidates (candidates fetch term))
      in case enqueue_all add_err (map (canon_job_for trigger) ranked) of
           (Some e, added) \<Rightarrow> (Inl e, added)
         | (None, added) \<Rightarrow> (Inr (length ranked), added))"

text \<open>
  Line 68 is \<open>const normalizedQuery = normalize(searchTerm)\<close>. The module neither declares
  nor imports \<open>normalize\<close>, and no source file defines it; the workers are started with a
  runner that does not type-check. \<open>normalize\<close> below is what the identifier is bound to
  in the module's scope: nothing, so evaluating the call throws a ReferenceError.
\<close>

definition normalize :: "(string \<Rightarrow> string) option" where
  "normalize = None"

text \<open>The handler: the search term, line 68, then the statements above.\<close>

definition processCheckSource ::
  "(string \<Rightarrow> nat \<Rightarrow> page_response) \<Rightarrow> (canon_add \<Rightarrow> js_error option)
     \<Rightarrow> check_source_job_data \<Rightarrow> db \<Rightarrow> nat outcome \<times> canon_add list" where
  "processCheckSource fetch add_err data d =
     (case searchTerm data d of
        None \<Rightarrow> (Inl (Error ''No search term provided or found for series_id''), [])
      | Some term \<Rightarrow>
          if term = [] then (Inl (Error ''No search term provided or found for series_id''), [])
          else
            (case normalize of
               None \<Rightarrow> (Inl (ReferenceError ''normalize is not defined''), [])
             | Some f \<Rightarrow>
                 (let normalizedQuery = f term
                  in discover fetch add_err (cs_trigger data) term)))"

section \<open>The queue's retry decision\<close>

text \<open>
  Modelled from the spec: what the job queue does with a handler's outcome; the queue
  library is not among the sources. A handler that returns completes the job. A handler
  that throws is retried after a backoff while attempts remain, and fails terminally
  otherwise. \<open>attempt\<close> is the number of the run that just ended, from 1.
\<close>

datatype job_state = Completed | RetryScheduled | FailedTerminal

definition queue_decides :: "nat \<Rightarrow> nat \<Rightarrow> 'a outcome \<Rightarrow> job_state" where
  "queue_decides attempts attempt out =
     (case out of
        Inr _ \<Rightarrow> Completed
      | Inl _ \<Rightarrow> if attempt < attempts then RetryScheduled else FailedTerminal)"

text \<open>\<open>defaultJobOptions.attempts\<close> of the four queues (src/lib/queues.ts).\<close>

definition syncSourceQueue_attempts :: nat where
  "syncSourceQueue_attempts = 3"

definition checkSourceQueue_attempts :: nat where
  "checkSourceQueue_attempts = 3"

definition notificationQueue_attempts :: nat where
  "notificationQueue_attempts = 5"

definition canonicalizeQueue_attempts :: nat where
  "canonicalizeQueue_attempts = 3"

section \<open>Example data\<close>

text \<open>A concrete UUID test for the examples: 8-4-4-4-12 hexadecimal digits.\<close>

definition uuid_shape :: "string \<Rightarrow> bool" where
  "uuid_shape s \<longleftrightarrow>
     map (\<lambda>c. if c = CHR ''-'' then CHR ''-''
              else if c \<in> set ''0123456789abcdefABCDEF'' then CHR ''h'' else CHR ''?'') s
       = ''hhhhhhhh-hhhh-hhhh-hhhh-hhhhhhhhhhhh''"

text \<open>A \<open>toLowerCase\<close> for the examples: it lower-cases the ASCII letters only.\<close>

definition ascii_lower :: "string \<Rightarrow> string" where
  "ascii_lower s =
     map (\<lambda>c. case map_of (zip ''ABCDEFGHIJKLMNOPQRSTUVWXYZ'' ''abcdefghijklmnopqrstuvwxyz'') c of
               Some l \<Rightarrow> l
             | None \<Rightarrow> c) s"

abbreviation uuid_a :: string where
  "uuid_a \<equiv> ''5f0c1a52-8d3e-4b7a-9c1d-2e4f6a8b0c01''"

abbreviation uuid_b :: string where
  "uuid_b \<equiv> ''9a7b3c1d-0e2f-4a6b-8c0d-1e3f5a7b9c02''"

definition ex_source :: series_source where
  "ex_source = \<lparr>src_id = uuid_a, src_series_id = uuid_b, source_name = ''MangaDex'',
     source_id = ''x1'', source_url = ''https://mangadex.org/title/x1'', sync_priority = ''HOT'',
     next_check_at = None, failure_count = 2, last_checked_at = None, last_success_at = None,
     source_chapter_count = 1, source_title = None, match_confidence = None,
     src_cover_url = None, cover_updated_at = None\<rparr>"

definition ex_row :: "rat \<Rightarrow> string option \<Rightarrow> string \<Rightarrow> chapter_row" where
  "ex_row n t u = \<lparr>series_id = uuid_b, series_source_id = uuid_a, chapter_number = n,
     chapter_title = t, chapter_url = u, published_at = None\<rparr>"

definition ex_scraped :: "scraped_chapter list" where
  "ex_scraped =
     [\<lparr>chapterNumber = 1, chapterTitle = Some ''Chapter 1'', chapterUrl = ''u1'', publishedAt = None\<rparr>,
      \<lparr>chapterNumber = 3 / 2, chapterTitle = Some ''Extra'', chapterUrl = ''u2'', publishedAt = None\<rparr>,
      \<lparr>chapterNumber = 3 / 2, chapterTitle = Some [], chapterUrl = ''u3'', publishedAt = None\<rparr>]"

definition ex_db :: db where
  "ex_db = \<lparr>seriesTable = [], seriesSource = [ex_source],
     chapterTable = [ex_row 1 (Some ''Old title'') ''old''], libraryEntry = [], notificationTable = []\<rparr>"

definition ex_env :: sync_env where
  "ex_env = \<lparr>now = 1000, hostname = (\<lambda>u. Some ''mangadex.org''), is_uuid = uuid_shape,
     toLowerCase = ascii_lower, scrapeSeries = (\<lambda>k i. Inr ex_scraped),
     transaction_error = None, add_error = None\<rparr>"

definition ex_job :: sync_job_data where
  "ex_job = \<lparr>seriesSourceId = JString uuid_a\<rparr>"

definition ex_db_open :: db where
  "ex_db_open = ex_db\<lparr>seriesSource := [ex_source\<lparr>failure_count := 5\<rparr>]\<rparr>"

definition ex_db_unknown :: db where
  "ex_db_unknown = ex_db\<lparr>seriesSource := [ex_source\<lparr>source_name := ''comick''\<rparr>]\<rparr>"

definition ex_env_queue_down :: sync_env where
  "ex_env_queue_down = ex_env\<lparr>add_error := Some (Error ''Connection is closed.'')\<rparr>"
definition ex_db_synced :: db where
  "ex_db_synced = ex_db\<lparr>chapterTable := [ex_row 1 (Some ''Old title'') ''old'', ex_row (3 / 2) (Some ''Extra'') ''u2''],
            seriesSource := [ex_source\<lparr>last_checked_at := Some 1000, last_success_at := Some 1000,
               source_chapter_count := 2, failure_count := 0\<rparr>]\<rparr>"
definition ex_env_bad_url :: sync_env where
  "ex_env_bad_url = ex_env\<lparr>hostname := (\<lambda>u. Some ''evil.example'')\<rparr>"
definition ex_db_after_failed_enqueue :: db where
  "ex_db_after_failed_enqueue =
     ex_db\<lparr>chapterTable := [ex_row 1 (Some ''Old title'') ''old'', ex_row (3 / 2) (Some ''Extra'') ''u2''],
            seriesSource := [ex_source\<lparr>last_checked_at := Some 1000, last_success_at := Some 1000,
               source_chapter_count := 2, failure_count := 1\<rparr>]\<rparr>"
definition ex_job_invalid :: sync_job_data where
  "ex_job_invalid = \<lparr>seriesSourceId = JString ''not-a-uuid''\<rparr>"

definition ex_series :: series where
  "ex_series = \<lparr>sid = uuid_b, title = ''Solo Leveling'', mangadex_id = Some ''md-32d7'',
     alternative_titles = [''Na Honjaman Level Up''], description = Some ''A weak hunter.'',
     cover_url = Some ''https://uploads.mangadex.org/covers/md-32d7/a.jpg'', stype = ''manhwa'',
     status = Some ''completed'', genres = [''Action''], content_rating = Some ''safe''\<rparr>"

definition ex_canon_job :: canonicalize_job_data where
  "ex_canon_job = \<lparr>job_title = ''Solo Leveling'', job_source_name = ''mangadex'',
     job_source_id = ''md-32d7'', job_source_url = ''https://mangadex.org/title/md-32d7'',
     job_mangadex_id = Some ''md-32d7'', job_alternative_titles = Some [''Only I Level Up''],
     job_description = Some ''Another text.'', job_cover_url = None, job_type = ''unknown'',
     job_status = Some ''ongoing'', job_genres = Some [''Fantasy''],
     job_content_rating = Some ''erotica'', job_confidence = Some 100\<rparr>"

definition ex_canon_env :: canon_env where
  "ex_canon_env = \<lparr>c_now = 1000,
     title_equals_insensitive = (\<lambda>a b. ascii_lower a = ascii_lower b),
     new_series_id = ''3c3c3c3c-0000-4000-8000-000000000003'',
     new_source_id = ''4d4d4d4d-0000-4000-8000-000000000004'', c_transaction_error = None,
     broadcast_error = None\<rparr>"

definition ex_canon_db :: db where
  "ex_canon_db = \<lparr>seriesTable = [ex_series], seriesSource = [], chapterTable = [],
     libraryEntry = [], notificationTable = []\<rparr>"

definition ex_notif_env :: notification_env where
  "ex_notif_env = \<lparr>n_now = 1000000, n_is_uuid = uuid_shape, job_id = ''notify-job-1''\<rparr>"

definition ex_notif_job :: notification_job_data where
  "ex_notif_job = \<lparr>seriesId = JString uuid_b, sourceId = JString uuid_a, newChapterCount = JNumber 2\<rparr>"

definition ex_old_notification :: notification where
  "ex_old_notification = \<lparr>user_id = ''user-1'', ntype = ''NEW_CHAPTER'',
     ntitle = ''New Chapter Available'', message = ''1 new chapter'', nseries_id = uuid_b,
     meta_source_id = uuid_a, meta_chapter_count = 1, meta_job_id = ''notify-job-0'',
     created_at = 900000\<rparr>"

definition ex_notif_db :: db where
  "ex_notif_db = \<lparr>seriesTable = [ex_series], seriesSource = [], chapterTable = [],
     libraryEntry =
       [\<lparr>le_user_id = ''user-1'', le_series_id = uuid_b, notify_new_chapters = True\<rparr>,
        \<lparr>le_user_id = ''user-2'', le_series_id = uuid_b, notify_new_chapters = True\<rparr>,
        \<lparr>le_user_id = ''user-3'', le_series_id = uuid_b, notify_new_chapters = False\<rparr>],
     notificationTable = [ex_old_notification]\<rparr>"

text \<open>A \<open>parseInt\<close> for the examples: plain decimal digit strings only.\<close>

definition ex_parseInt :: "string \<Rightarrow> int option" where
  "ex_parseInt s =
     (if s \<noteq> [] \<and> list_all (\<lambda>c. c \<in> set ''0123456789'') s
      then Some (int (fold (\<lambda>c n. 10 * n
                  + (case map_of (zip ''0123456789'' [0, 1, 2, 3, 4, 5, 6, 7, 8, 9]) c of
                       Some v \<Rightarrow> v | None \<Rightarrow> 0)) s 0))
      else None)"

definition ex_redis_stale :: redis_env where
  "ex_redis_stale = \<lparr>redisReady = True, heartbeat = Inr (Some ''1700000000000''),
     parseInt = ex_parseInt, r_now = 1700000020000\<rparr>"

definition ex_search_env :: search_env where
  "ex_search_env = \<lparr>cooldown = None, workers = ex_redis_stale, jobCounts = Inr (0, 0, 0),
     queue_add_error = None, cooldown_set_error = None, queryHash = (\<lambda>q. ''c29sbw==''),
     cooldownKey = (\<lambda>q. ''kenmei:cooldown:search:203.0.113.7:c29sbw=='')\<rparr>"

definition ex_src :: "string \<Rightarrow> string \<Rightarrow> int option \<Rightarrow> series_source" where
  "ex_src i tier nc = ex_source\<lparr>src_id := i, sync_priority := tier, next_check_at := nc\<rparr>"

definition ex_sched_db :: db where
  "ex_sched_db = \<lparr>seriesTable = [],
     seriesSource = [ex_src ''src-1'' ''HOT'' None, ex_src ''src-2'' ''HOT'' (Some 999000),
                     ex_src ''src-3'' ''HOT'' (Some 1000000), ex_src ''src-4'' ''WARM'' (Some 1000001)],
     chapterTable = [], libraryEntry = [], notificationTable = []\<rparr>"

definition ex_sched_db_odd :: db where
  "ex_sched_db_odd = ex_sched_db\<lparr>seriesSource :=
     seriesSource ex_sched_db @ [ex_src ''src-5'' ''constructor'' None]\<rparr>"

definition ex_cand :: "string \<Rightarrow> string \<Rightarrow> candidate" where
  "ex_cand i t = \<lparr>cand_mangadex_id = i, cand_title = t, cand_title_lang = ''en'',
     cand_alternative_titles = [(t, ''en'')], cand_original_language = ''ko'',
     cand_description = ''A weak hunter.'', cand_status = ''ongoing'', cand_type = ''unknown'',
     cand_genres = [''Action''], cand_content_rating = Some ''safe'', cand_cover_url = None,
     cand_follows = None, cand_rating = None\<rparr>"

definition ex_fetch :: "string \<Rightarrow> nat \<Rightarrow> page_response" where
  "ex_fetch term page =
     (if page = 0
      then Page [Inr (ex_cand ''md-a'' ''Solo Leveling''), Inr (ex_cand ''md-b'' ''Solo Max Level''),
                 Inr (ex_cand ''md-a'' ''Only I Level Up'')]
      else Page [])"

definition ex_check_job :: check_source_job_data where
  "ex_check_job = \<lparr>cs_query = Some ''Solo'', cs_series_id = None, cs_intent = Some ''PARTIAL_TITLE'',
     cs_trigger = Some ''user_search''\<rparr>"

abbreviation uuid_c :: string where
  "uuid_c \<equiv> ''7e6d5c4b-3a29-4187-a6f5-e4d3c2b1a003''"

definition ex_notif_env2 :: notification_env where
  "ex_notif_env2 = \<lparr>n_now = 1000050, n_is_uuid = uuid_shape, job_id = ''notify-job-2''\<rparr>"

definition ex_notif_job2 :: notification_job_data where
  "ex_notif_job2 = \<lparr>seriesId = JString uuid_b, sourceId = JString uuid_c, newChapterCount = JNumber 1\<rparr>"

section \<open>Verification: the reconcile step of the sync worker\<close>

lemma newChaptersData_eq:
  "newChaptersData source ex cs =
     map (\<lambda>c. \<lparr>series_id = src_series_id source, series_source_id = src_id source,
            chapter_number = chapterNumber c, chapter_title = or_null (chapterTitle c),
            chapter_url = chapterUrl c, published_at = publishedAt c\<rparr>)
         (filter (\<lambda>c. chapterNumber c \<notin> set ex) cs)"
  by (induction cs) auto

lemma newChaptersData_all_known:
  "chapterNumber ` set cs \<subseteq> set ex \<Longrightarrow> newChaptersData source ex cs = []"
  by (induction cs) auto

lemma createMany_prefix:
  "\<exists>ins. fst (createMany_skipDuplicates tbl rs) = tbl @ ins \<and> set ins \<subseteq> set rs
        \<and> length ins = snd (createMany_skipDuplicates tbl rs)
        \<and> (\<forall>r\<in>set ins. \<not> list_ex (same_key r) tbl)"
proof (induction rs arbitrary: tbl)
  case Nil
  then show ?case by simp
next
  case (Cons r rs)
  show ?case
  proof (cases "list_ex (same_key r) tbl")
    case True
    with Cons.IH [of tbl] show ?thesis by auto
  next
    case False
    from Cons.IH [of "tbl @ [r]"] obtain ins where
      ins: "fst (createMany_skipDuplicates (tbl @ [r]) rs) = (tbl @ [r]) @ ins"
        "set ins \<subseteq> set rs" "length ins = snd (createMany_skipDuplicates (tbl @ [r]) rs)"
        "\<forall>x\<in>set ins. \<not> list_ex (same_key x) (tbl @ [r])"
      by blast
    have "fst (createMany_skipDuplicates tbl (r # rs)) = tbl @ (r # ins)"
      using False ins(1) by (simp add: case_prod_beta)
    moreover have "set (r # ins) \<subseteq> set (r # rs)" using ins(2) by auto
    moreover have "length (r # ins) = snd (createMany_skipDuplicates tbl (r # rs))"
      using False ins(3) by (simp add: case_prod_beta)
    moreover have "\<forall>x\<in>set (r # ins). \<not> list_ex (same_key x) tbl"
      using False ins(4) by (auto simp: list_ex_iff)
    ultimately show ?thesis by blast
  qed
qed

lemma createMany_covers:
  "r \<in> set rs \<Longrightarrow> list_ex (same_key r) (fst (createMany_skipDuplicates tbl rs))"
proof (induction rs arbitrary: tbl)
  case Nil
  then show ?case by simp
next
  case (Cons a rs)
  have grow: "\<And>t x. list_ex (same_key x) t \<Longrightarrow> list_ex (same_key x) (fst (createMany_skipDuplicates t rs))"
  proof -
    fix t x assume h: "list_ex (same_key x) t"
    from createMany_prefix [of t rs] obtain ins where "fst (createMany_skipDuplicates t rs) = t @ ins" by blast
    with h show "list_ex (same_key x) (fst (createMany_skipDuplicates t rs))" by (auto simp: list_ex_iff)
  qed
  show ?case
  proof (cases "r = a")
    case True
    show ?thesis
    proof (cases "list_ex (same_key a) tbl")
      case True
      with \<open>r = a\<close> grow [of a tbl] show ?thesis by simp
    next
      case False
      have "list_ex (same_key a) (tbl @ [a])" by (simp add: list_ex_iff same_key_def)
      from grow [OF this] False \<open>r = a\<close> show ?thesis by (simp add: case_prod_beta)
    qed
  next
    case False
    with Cons.prems have "r \<in> set rs" by simp
    with Cons.IH show ?thesis by (simp add: case_prod_beta)
  qed
qed

lemma createMany_distinct_keys:
  "\<exists>ins. fst (createMany_skipDuplicates tbl rs) = tbl @ ins
        \<and> distinct (map (\<lambda>r. (series_source_id r, chapter_number r)) ins)"
proof (induction rs arbitrary: tbl)
  case Nil
  then show ?case by simp
next
  case (Cons r rs)
  show ?case
  proof (cases "list_ex (same_key r) tbl")
    case True
    with Cons.IH [of tbl] show ?thesis by auto
  next
    case False
    from createMany_prefix [of "tbl @ [r]" rs] obtain ins where
      ins: "fst (createMany_skipDuplicates (tbl @ [r]) rs) = (tbl @ [r]) @ ins"
        "\<forall>x\<in>set ins. \<not> list_ex (same_key x) (tbl @ [r])"
      by blast
    from Cons.IH [of "tbl @ [r]"] ins(1)
    have d: "distinct (map (\<lambda>r. (series_source_id r, chapter_number r)) ins)" by auto
    have "(series_source_id r, chapter_number r) \<notin> set (map (\<lambda>r. (series_source_id r, chapter_number r)) ins)"
      using ins(2) by (auto simp: list_ex_iff same_key_def)
    with d have "distinct (map (\<lambda>r. (series_source_id r, chapter_number r)) (r # ins))" by simp
    moreover have "fst (createMany_skipDuplicates tbl (r # rs)) = tbl @ (r # ins)"
      using False ins(1) by (simp add: case_prod_beta)
    ultimately show ?thesis by blast
  qed
qed

lemma chapterTable_update_source [simp]:
  "chapterTable (update_source i f d) = chapterTable d"
  by (simp add: update_source_def)

lemma existingNumbers_update_source [simp]:
  "existingNumbers (update_source i f d) s = existingNumbers d s"
  by (simp add: existingNumbers_def)

lemma sync_transaction_table:
  "chapterTable (fst (sync_transaction t source scraped d)) =
     fst (createMany_skipDuplicates (chapterTable d)
            (newChaptersData source (existingNumbers d source) scraped))"
  "snd (sync_transaction t source scraped d) =
     snd (createMany_skipDuplicates (chapterTable d)
            (newChaptersData source (existingNumbers d source) scraped))"
  by (cases "newChaptersData source (existingNumbers d source) scraped";
      simp add: sync_transaction_def Let_def case_prod_beta)+

lemma newChaptersData_set:
  "r \<in> set (newChaptersData source ex cs) \<Longrightarrow>
     series_source_id r = src_id source \<and> series_id r = src_series_id source \<and>
     chapter_number r \<notin> set ex \<and> chapter_number r \<in> chapterNumber ` set cs"
  by (auto simp: newChaptersData_eq)

lemma sync_transaction_inserted:
  "\<exists>ins. chapterTable (fst (sync_transaction t source scraped d)) = chapterTable d @ ins
     \<and> length ins = snd (sync_transaction t source scraped d)
     \<and> distinct (map chapter_number ins)
     \<and> (\<forall>r\<in>set ins. series_source_id r = src_id source \<and>
            chapter_number r \<notin> set (existingNumbers d source) \<and>
            chapter_number r \<in> chapterNumber ` set scraped)"
proof -
  let ?new = "newChaptersData source (existingNumbers d source) scraped"
  from createMany_prefix [of "chapterTable d" ?new] obtain ins where
    ins: "fst (createMany_skipDuplicates (chapterTable d) ?new) = chapterTable d @ ins"
      "set ins \<subseteq> set ?new" "length ins = snd (createMany_skipDuplicates (chapterTable d) ?new)"
    by blast
  from createMany_distinct_keys [of "chapterTable d" ?new] ins(1)
  have dk: "distinct (map (\<lambda>r. (series_source_id r, chapter_number r)) ins)" by auto
  have props: "\<forall>r\<in>set ins. series_source_id r = src_id source \<and>
            chapter_number r \<notin> set (existingNumbers d source) \<and>
            chapter_number r \<in> chapterNumber ` set scraped"
    using ins(2) newChaptersData_set [of _ source "existingNumbers d source" scraped] by blast
  have "inj_on chapter_number (set ins)"
  proof (rule inj_onI)
    fix a b assume a: "a \<in> set ins" and b: "b \<in> set ins" and e: "chapter_number a = chapter_number b"
    from dk have "inj_on (\<lambda>r. (series_source_id r, chapter_number r)) (set ins)" and "distinct ins"
      by (auto simp: distinct_map)
    moreover from props a b have "series_source_id a = series_source_id b" by simp
    ultimately show "a = b" using a b e by (auto dest: inj_onD)
  qed
  moreover from dk have "distinct ins" by (auto simp: distinct_map)
  ultimately have "distinct (map chapter_number ins)" by (simp add: distinct_map)
  with ins props show ?thesis by (auto simp: sync_transaction_table)
qed

lemma sync_transaction_stores_all:
  "chapterNumber ` set scraped \<subseteq>
     set (existingNumbers (fst (sync_transaction t source scraped d)) source)"
proof
  fix n assume "n \<in> chapterNumber ` set scraped"
  then obtain c where c: "c \<in> set scraped" "n = chapterNumber c" by auto
  let ?ex = "existingNumbers d source"
  let ?new = "newChaptersData source ?ex scraped"
  let ?d1 = "fst (sync_transaction t source scraped d)"
  from sync_transaction_inserted [of t source scraped d] obtain ins where
    ins: "chapterTable ?d1 = chapterTable d @ ins" by blast
  show "n \<in> set (existingNumbers ?d1 source)"
  proof (cases "n \<in> set ?ex")
    case True
    then show ?thesis using ins by (auto simp: existingNumbers_def)
  next
    case False
    let ?r = "\<lparr>series_id = src_series_id source, series_source_id = src_id source,
            chapter_number = chapterNumber c, chapter_title = or_null (chapterTitle c),
            chapter_url = chapterUrl c, published_at = publishedAt c\<rparr>"
    from False c have "?r \<in> set ?new" by (auto simp: newChaptersData_eq)
    from createMany_covers [OF this, of "chapterTable d"]
    obtain x where "x \<in> set (chapterTable ?d1)" "same_key ?r x"
      by (auto simp: list_ex_iff sync_transaction_table)
    then show ?thesis using c by (force simp: existingNumbers_def same_key_def)
  qed
qed

text \<open>
  C1. Running the reconcile step (the transaction of the sync worker) a second time on the
  same scraped list leaves the chapter table exactly as the first run left it and inserts
  nothing. The first run keeps every stored row untouched and in place, appends as many
  rows as it reports, and the appended rows belong to this source, carry pairwise different
  chapter numbers (duplicates inside the scraped list are skipped), and carry only numbers
  that were scraped and were not stored before. The numbers of the appended rows are
  exactly the scraped numbers that were not stored for this source, so after the run every
  scraped number is stored for it.
\<close>

theorem reconcile_idempotent:
  "chapterTable (fst (sync_transaction t' source scraped (fst (sync_transaction t source scraped d))))
     = chapterTable (fst (sync_transaction t source scraped d))
   \<and> snd (sync_transaction t' source scraped (fst (sync_transaction t source scraped d))) = 0
   \<and> take (length (chapterTable d)) (chapterTable (fst (sync_transaction t source scraped d)))
       = chapterTable d
   \<and> length (chapterTable (fst (sync_transaction t source scraped d)))
       = length (chapterTable d) + snd (sync_transaction t source scraped d)
   \<and> distinct (map chapter_number
        (drop (length (chapterTable d)) (chapterTable (fst (sync_transaction t source scraped d)))))
   \<and> (\<forall>r \<in> set (drop (length (chapterTable d))
                   (chapterTable (fst (sync_transaction t source scraped d)))).
         series_source_id r = src_id source \<and>
         chapter_number r \<notin> set (existingNumbers d source) \<and>
         chapter_number r \<in> chapterNumber ` set scraped)
   \<and> set (map chapter_number
        (drop (length (chapterTable d)) (chapterTable (fst (sync_transaction t source scraped d)))))
       = chapterNumber ` set scraped - set (existingNumbers d source)
   \<and> chapterNumber ` set scraped
       \<subseteq> set (existingNumbers (fst (sync_transaction t source scraped d)) source)"
proof -
  let ?d1 = "fst (sync_transaction t source scraped d)"
  from sync_transaction_inserted [of t source scraped d] obtain ins where
    ins: "chapterTable ?d1 = chapterTable d @ ins"
      "length ins = snd (sync_transaction t source scraped d)"
      "distinct (map chapter_number ins)"
      "\<forall>r\<in>set ins. series_source_id r = src_id source \<and>
            chapter_number r \<notin> set (existingNumbers d source) \<and>
            chapter_number r \<in> chapterNumber ` set scraped"
    by blast
  have none: "newChaptersData source (existingNumbers ?d1 source) scraped = []"
    by (rule newChaptersData_all_known) (rule sync_transaction_stores_all)
  have "chapterTable (fst (sync_transaction t' source scraped ?d1)) = chapterTable ?d1"
    and "snd (sync_transaction t' source scraped ?d1) = 0"
    by (simp_all add: sync_transaction_table none)
  note second = this
  have all: "chapterNumber ` set scraped \<subseteq> set (existingNumbers ?d1 source)"
    by (rule sync_transaction_stores_all)
  have ex1: "set (existingNumbers ?d1 source)
               = set (existingNumbers d source) \<union> chapter_number ` set ins"
    using ins(1,4) by (auto simp: existingNumbers_def)
  have new: "chapter_number ` set ins = chapterNumber ` set scraped - set (existingNumbers d source)"
  proof
    show "chapter_number ` set ins \<subseteq> chapterNumber ` set scraped - set (existingNumbers d source)"
      using ins(4) by auto
    show "chapterNumber ` set scraped - set (existingNumbers d source) \<subseteq> chapter_number ` set ins"
      using all ex1 by auto
  qed
  from ins second new all show ?thesis by simp
qed

lemmas ex_defs = ex_source_def ex_row_def ex_scraped_def ex_db_def

lemma ex_first_run:
  "sync_transaction 1000 ex_source ex_scraped ex_db =
     (ex_db\<lparr>chapterTable := [ex_row 1 (Some ''Old title'') ''old'', ex_row (3 / 2) (Some ''Extra'') ''u2''],
            seriesSource := [ex_source\<lparr>last_checked_at := Some 1000, last_success_at := Some 1000,
               source_chapter_count := 2, failure_count := 0\<rparr>]\<rparr>, 1)"
  by (simp add: ex_defs sync_transaction_def existingNumbers_def update_source_def same_key_def
        or_null_def Let_def)

theorem reconcile_idempotent_witness:
  "chapterTable (fst (sync_transaction 2000 ex_source ex_scraped
      (fst (sync_transaction 1000 ex_source ex_scraped ex_db))))
     = [ex_row 1 (Some ''Old title'') ''old'', ex_row (3 / 2) (Some ''Extra'') ''u2'']
   \<and> drop (length (chapterTable ex_db))
        (chapterTable (fst (sync_transaction 1000 ex_source ex_scraped ex_db)))
     = [ex_row (3 / 2) (Some ''Extra'') ''u2'']
   \<and> series_source_id (ex_row (3 / 2) (Some ''Extra'') ''u2'') = src_id ex_source
   \<and> chapter_number (ex_row (3 / 2) (Some ''Extra'') ''u2'') \<notin> set (existingNumbers ex_db ex_source)
   \<and> chapter_number (ex_row (3 / 2) (Some ''Extra'') ''u2'') \<in> chapterNumber ` set ex_scraped
   \<and> chapterNumber ` set ex_scraped - set (existingNumbers ex_db ex_source) = {3 / 2}
   \<and> set (existingNumbers (fst (sync_transaction 1000 ex_source ex_scraped ex_db)) ex_source)
       = {1, 3 / 2}"
proof -
  have n1: "chapterNumber ` set ex_scraped - set (existingNumbers ex_db ex_source) = {3 / 2}"
    by (auto simp: existingNumbers_def ex_defs)
  have n2: "set (existingNumbers (fst (sync_transaction 1000 ex_source ex_scraped ex_db)) ex_source)
       = {1, 3 / 2}"
    unfolding ex_first_run fst_conv by (auto simp: existingNumbers_def ex_defs)
  from reconcile_idempotent [of 2000 ex_source ex_scraped 1000 ex_db] n1 n2
  show ?thesis by (simp add: ex_first_run) (simp add: ex_db_def)
qed

section \<open>Verification: the circuit breaker\<close>

lemma find_Some_props: "find P xs = Some x \<Longrightarrow> P x \<and> x \<in> set xs"
  by (induction xs) (auto split: if_splits)

lemma findUnique_source_id: "findUnique_source d i = Some s \<Longrightarrow> src_id s = i"
  by (auto simp: findUnique_source_def dest: find_Some_props)

lemma find_map_update:
  assumes "find (\<lambda>s. src_id s = i) xs = Some x" "\<And>s. src_id (f s) = src_id s"
  shows "find (\<lambda>s. src_id s = i) (map (\<lambda>s. if src_id s = i then f s else s) xs) = Some (f x)"
  using assms by (induction xs) (auto split: if_splits)

lemma findUnique_update_source:
  "findUnique_source d i = Some s \<Longrightarrow> (\<And>s. src_id (f s) = src_id s) \<Longrightarrow>
   findUnique_source (update_source i f d) i = Some (f s)"
  by (simp add: findUnique_source_def update_source_def find_map_update)
lemma breaker_step:
  assumes "CheckSourceDataSchema (is_uuid env) data = Some i"
    and "findUnique_source d i = Some s" and "failure_count s \<ge> MAX_CONSECUTIVE_FAILURES"
  shows "processSyncSource env data d =
           (Inr (), update_source i (\<lambda>s. s\<lparr>sync_priority := ''COLD'',
                       next_check_at := Some (now env + 24 * 60 * 60 * 1000)\<rparr>) d, [])"
  using assms findUnique_source_id [OF assms(2)]
  by (simp add: processSyncSource_def)

lemma breaker_attempts:
  assumes "findUnique_source d i = Some s" and "failure_count s \<ge> MAX_CONSECUTIVE_FAILURES"
    and "list_all (\<lambda>j. CheckSourceDataSchema (is_uuid (fst j)) (snd j) = Some i) jobs"
  shows "\<exists>d' s'. sync_attempts jobs d = (replicate (length jobs) (Inr ()), d', [])
           \<and> findUnique_source d' i = Some s' \<and> failure_count s' = failure_count s"
  using assms
proof (induction jobs arbitrary: d s)
  case Nil
  then show ?case by simp
next
  case (Cons j js)
  let ?f = "\<lambda>s. s\<lparr>sync_priority := ''COLD'',
                       next_check_at := Some (now (fst j) + 24 * 60 * 60 * 1000)\<rparr>"
  let ?d1 = "update_source i ?f d"
  from Cons.prems have valid: "CheckSourceDataSchema (is_uuid (fst j)) (snd j) = Some i"
    and rest: "list_all (\<lambda>j. CheckSourceDataSchema (is_uuid (fst j)) (snd j) = Some i) js"
    by simp_all
  have step: "processSyncSource (fst j) (snd j) d = (Inr (), ?d1, [])"
    by (rule breaker_step [OF valid Cons.prems(1) Cons.prems(2)])
  have found: "findUnique_source ?d1 i = Some (?f s)"
    by (rule findUnique_update_source [OF Cons.prems(1)]) simp
  have "failure_count (?f s) \<ge> MAX_CONSECUTIVE_FAILURES" using Cons.prems(2) by simp
  from Cons.IH [OF found this rest] obtain d' s' where
    "sync_attempts js ?d1 = (replicate (length js) (Inr ()), d', [])"
    "findUnique_source d' i = Some s'" "failure_count s' = failure_count (?f s)"
    by blast
  with step show ?case by simp
qed

text \<open>
  C2. A valid sync job on a source whose \<open>failure_count\<close> is at least 5 performs no
  effect at all (no scraper call, no enqueue), returns normally so that the queue completes
  the job without retry, sets \<open>sync_priority\<close> to COLD and \<open>next_check_at\<close> to now plus
  24 hours, and leaves \<open>failure_count\<close> as it was. The same holds after any number of
  earlier attempts on that source: none of them calls the scraper either.
\<close>

theorem circuit_breaker_open:
  assumes "findUnique_source d i = Some source"
    and "failure_count source \<ge> MAX_CONSECUTIVE_FAILURES"
    and "list_all (\<lambda>j. CheckSourceDataSchema (is_uuid (fst j)) (snd j) = Some i) earlier"
    and "CheckSourceDataSchema (is_uuid env) data = Some i"
  shows "case sync_attempts earlier d of (outs, d1, effs) \<Rightarrow>
           effs = [] \<and> outs = replicate (length earlier) (Inr ()) \<and>
           (case processSyncSource env data d1 of (out, d2, effs2) \<Rightarrow>
              out = Inr () \<and> effs2 = [] \<and>
              queue_decides syncSourceQueue_attempts attempt out = Completed \<and>
              d2 = update_source i (\<lambda>s. s\<lparr>sync_priority := ''COLD'',
                       next_check_at := Some (now env + 24 * 60 * 60 * 1000)\<rparr>) d1 \<and>
              map_option (\<lambda>s. (failure_count s, sync_priority s, next_check_at s))
                  (findUnique_source d2 i)
                = Some (failure_count source, ''COLD'', Some (now env + 86400000)))"
proof -
  from breaker_attempts [OF assms(1,2,3)] obtain d1 s1 where
    run: "sync_attempts earlier d = (replicate (length earlier) (Inr ()), d1, [])"
    and s1: "findUnique_source d1 i = Some s1" "failure_count s1 = failure_count source"
    by blast
  let ?f = "\<lambda>s. s\<lparr>sync_priority := ''COLD'',
                       next_check_at := Some (now env + 24 * 60 * 60 * 1000)\<rparr>"
  from s1 assms(2) have "failure_count s1 \<ge> MAX_CONSECUTIVE_FAILURES" by simp
  from breaker_step [OF assms(4) s1(1) this]
  have step: "processSyncSource env data d1 = (Inr (), update_source i ?f d1, [])" .
  have "findUnique_source (update_source i ?f d1) i = Some (?f s1)"
    by (rule findUnique_update_source [OF s1(1)]) simp
  with run step s1(2) show ?thesis by (simp add: queue_decides_def)
qed
theorem circuit_breaker_open_witness:
  "findUnique_source ex_db_open uuid_a = Some (ex_source\<lparr>failure_count := 5\<rparr>)
   \<and> failure_count (ex_source\<lparr>failure_count := 5\<rparr>) \<ge> MAX_CONSECUTIVE_FAILURES
   \<and> list_all (\<lambda>j. CheckSourceDataSchema (is_uuid (fst j)) (snd j) = Some uuid_a)
        [(ex_env, ex_job), (ex_env\<lparr>now := 2000\<rparr>, ex_job)]
   \<and> CheckSourceDataSchema (is_uuid ex_env) ex_job = Some uuid_a
   \<and> snd (snd (sync_attempts [(ex_env, ex_job), (ex_env\<lparr>now := 2000\<rparr>, ex_job)] ex_db_open)) = []
   \<and> processSyncSource (ex_env\<lparr>now := 3000\<rparr>) ex_job
        (fst (snd (sync_attempts [(ex_env, ex_job), (ex_env\<lparr>now := 2000\<rparr>, ex_job)] ex_db_open)))
      = (Inr (),
         ex_db\<lparr>seriesSource := [ex_source\<lparr>failure_count := 5, sync_priority := ''COLD'',
                                   next_check_at := Some 86403000\<rparr>]\<rparr>, [])"
proof -
  have a: "findUnique_source ex_db_open uuid_a = Some (ex_source\<lparr>failure_count := 5\<rparr>)"
    by (simp add: findUnique_source_def ex_db_open_def ex_db_def ex_source_def)
  have b: "failure_count (ex_source\<lparr>failure_count := 5\<rparr>) \<ge> MAX_CONSECUTIVE_FAILURES"
    by (simp add: MAX_CONSECUTIVE_FAILURES_def)
  have c: "list_all (\<lambda>j. CheckSourceDataSchema (is_uuid (fst j)) (snd j) = Some uuid_a)
        [(ex_env, ex_job), (ex_env\<lparr>now := 2000\<rparr>, ex_job)]"
    by (simp add: CheckSourceDataSchema_def ex_env_def ex_job_def uuid_shape_def)
  have e: "CheckSourceDataSchema (is_uuid (ex_env\<lparr>now := 3000\<rparr>)) ex_job = Some uuid_a"
    by (simp add: CheckSourceDataSchema_def ex_env_def ex_job_def uuid_shape_def)
  have e': "CheckSourceDataSchema (is_uuid ex_env) ex_job = Some uuid_a"
    by (simp add: CheckSourceDataSchema_def ex_env_def ex_job_def uuid_shape_def)
  from circuit_breaker_open [OF a b c e, of 1] a b c e' show ?thesis
    apply (simp add: case_prod_beta)
    apply (simp add: ex_db_open_def ex_db_def ex_source_def update_source_def processSyncSource_def
        findUnique_source_def MAX_CONSECUTIVE_FAILURES_def ex_env_def ex_job_def CheckSourceDataSchema_def
        uuid_shape_def)
    done
qed

section \<open>Verification: the failure counter\<close>

lemma find_map_other:
  assumes "j \<noteq> i" "\<And>s. src_id (f s) = src_id s"
  shows "find (\<lambda>s. src_id s = j) (map (\<lambda>s. if src_id s = i then f s else s) xs)
           = find (\<lambda>s. src_id s = j) xs"
  using assms by (induction xs) auto

lemma findUnique_update_other:
  "j \<noteq> i \<Longrightarrow> (\<And>s. src_id (f s) = src_id s) \<Longrightarrow>
   findUnique_source (update_source i f d) j = findUnique_source d j"
  by (simp add: findUnique_source_def update_source_def find_map_other)

lemma findUnique_chapterTable_update [simp]:
  "findUnique_source (d\<lparr>chapterTable := t\<rparr>) j = findUnique_source d j"
  by (simp add: findUnique_source_def)

lemma sync_transaction_source:
  assumes "findUnique_source d i = Some s" "src_id source = i"
  shows "findUnique_source (fst (sync_transaction t source scraped d)) i
           = Some (s\<lparr>last_checked_at := Some t, last_success_at := Some t,
                     source_chapter_count := source_chapter_count s
                        + int (snd (sync_transaction t source scraped d)),
                     failure_count := 0\<rparr>)"
  using assms
  by (simp add: sync_transaction_def Let_def case_prod_beta findUnique_update_source)

lemma sync_transaction_other:
  assumes "j \<noteq> src_id source"
  shows "findUnique_source (fst (sync_transaction t source scraped d)) j = findUnique_source d j"
  using assms
  by (simp add: sync_transaction_def Let_def case_prod_beta findUnique_update_other)

lemma sync_catch_source:
  assumes "findUnique_source d i = Some s" "src_id source = i"
  shows "findUnique_source (fst (snd (sync_catch t source e d effs))) i
           = Some (s\<lparr>last_checked_at := Some t, failure_count := failure_count s + 1\<rparr>)"
  using assms by (simp add: sync_catch_def Let_def findUnique_update_source)

lemma sync_catch_other:
  assumes "j \<noteq> src_id source"
  shows "findUnique_source (fst (snd (sync_catch t source e d effs))) j = findUnique_source d j"
  using assms by (simp add: sync_catch_def Let_def findUnique_update_other)

lemma processSyncSource_other:
  assumes "CheckSourceDataSchema (is_uuid env) data = Some i" "j \<noteq> i"
  shows "findUnique_source (fst (snd (processSyncSource env data d))) j = findUnique_source d j"
proof (cases "findUnique_source d i")
  case None
  with assms show ?thesis by (simp add: processSyncSource_def)
next
  case (Some source)
  then have sid: "src_id source = i" by (rule findUnique_source_id)
  with assms(2) have ne: "j \<noteq> src_id source" by simp
  show ?thesis
    using assms(1) Some ne sid
    by (auto simp: processSyncSource_def Let_def case_prod_beta findUnique_update_other
          sync_catch_other sync_transaction_other
        split: scraper_lookup.splits sum.splits option.splits)
qed

lemma processSyncSource_scraped:
  assumes "CheckSourceDataSchema (is_uuid env) data = Some i"
    and "findUnique_source d i = Some source"
    and "failure_count source < MAX_CONSECUTIVE_FAILURES"
    and "validateSourceUrl (hostname env) (source_url source)"
    and "scrapers (toLowerCase env (source_name source)) = Scraper k"
    and "scrapeSeries env k (source_id source) = Inr chapters"
    and "transaction_error env = None"
    and "sync_transaction (now env) source chapters d = (d', result)"
  shows "processSyncSource env data d =
           (if result > 0 then
              (case add_error env of
                 Some e \<Rightarrow> sync_catch (now env) source e d' [ScrapeSeries k (source_id source)]
               | None \<Rightarrow> (Inr (), d',
                   [ScrapeSeries k (source_id source), notification_job (now env) source result]))
            else (Inr (), d', [ScrapeSeries k (source_id source)]))"
  using assms by (simp add: processSyncSource_def Let_def split: option.splits)

lemma ex_job_valid: "CheckSourceDataSchema uuid_shape ex_job = Some uuid_a"
  by (simp add: CheckSourceDataSchema_def ex_job_def uuid_shape_def)

lemma ex_lower: "ascii_lower ''MangaDex'' = ''mangadex''" "ascii_lower ''comick'' = ''comick''"
  by (simp_all add: ascii_lower_def)

lemma ex_time: "string_of_int 1000 = ''1000''"
  by (simp add: string_of_int_def string_of_nat.simps digit_char_def)

lemma ex_success:
  "processSyncSource ex_env ex_job ex_db =
     (Inr (), ex_db_synced,
      [ScrapeSeries ''mangadex'' ''x1'',
       NotificationAdd (''notify-'' @ uuid_b @ ''-1000'')
         \<lparr>seriesId = JString uuid_b, sourceId = JString uuid_a, newChapterCount = JNumber 1\<rparr>])"
  by (simp add: processSyncSource_def ex_env_def ex_job_valid ex_first_run ex_db_synced_def
        notification_job_def ex_time)
     (simp add: ex_db_def ex_source_def findUnique_source_def MAX_CONSECUTIVE_FAILURES_def
        validateSourceUrl_def ALLOWED_HOSTS_def ex_lower scrapers_def ex_first_run [unfolded ex_db_def ex_source_def]
        notification_job_def ex_time)

lemma ex_found: "findUnique_source ex_db uuid_a = Some ex_source"
  by (simp add: findUnique_source_def ex_db_def ex_source_def)

lemma ex_unknown_found:
  "findUnique_source ex_db_unknown uuid_a = Some (ex_source\<lparr>source_name := ''comick''\<rparr>)"
  by (simp add: findUnique_source_def ex_db_unknown_def ex_db_def ex_source_def)

lemma ex_unknown_run:
  "processSyncSource ex_env ex_job ex_db_unknown = (Inr (), ex_db_unknown, [])"
  by (simp add: processSyncSource_def ex_env_def ex_job_valid ex_unknown_found
        MAX_CONSECUTIVE_FAILURES_def validateSourceUrl_def ALLOWED_HOSTS_def ex_lower scrapers_def
        object_prototype_keys_def)
     (simp add: ex_source_def MAX_CONSECUTIVE_FAILURES_def validateSourceUrl_def ALLOWED_HOSTS_def)

text \<open>
  C5, as stated, fails: for the source name \<open>comick\<close> the lookup in \<open>scrapers\<close> gives
  \<open>undefined\<close> (no scraper is configured), and the sync attempt returns without touching
  the source row, so \<open>failure_count\<close> stays at 2 instead of becoming 3.
\<close>

theorem missing_scraper_not_counted:
  "CheckSourceDataSchema (is_uuid ex_env) ex_job = Some uuid_a
   \<and> findUnique_source ex_db_unknown uuid_a = Some (ex_source\<lparr>source_name := ''comick''\<rparr>)
   \<and> failure_count (ex_source\<lparr>source_name := ''comick''\<rparr>) = 2
   \<and> validateSourceUrl (hostname ex_env) (source_url (ex_source\<lparr>source_name := ''comick''\<rparr>))
   \<and> scrapers (toLowerCase ex_env (source_name (ex_source\<lparr>source_name := ''comick''\<rparr>))) = Undefined
   \<and> map_option failure_count
        (findUnique_source (fst (snd (processSyncSource ex_env ex_job ex_db_unknown))) uuid_a)
       = Some 2
   \<and> map_option failure_count
        (findUnique_source (fst (snd (processSyncSource ex_env ex_job ex_db_unknown))) uuid_a)
       \<noteq> Some (failure_count (ex_source\<lparr>source_name := ''comick''\<rparr>) + 1)"
  by (simp add: ex_unknown_run ex_unknown_found)
     (simp add: ex_env_def ex_job_valid ex_source_def validateSourceUrl_def ALLOWED_HOSTS_def
        ex_lower scrapers_def object_prototype_keys_def)

text \<open>
  C5, amended. A run with an invalid payload or for a missing source changes nothing. For a
  source that exists: an open circuit breaker leaves \<open>failure_count\<close> as it is, and so does
  a source name whose lower-cased form is no property of the \<open>scrapers\<close> object at all (the
  lookup gives \<open>undefined\<close>); an invalid source URL increases it by exactly 1; when the
  lookup gives one of the configured scrapers, an exception of that scraper and a failed
  transaction increase it by exactly 1, and a scrape whose transaction commits, with the
  notification enqueued or not needed, returns normally with \<open>failure_count\<close> 0. No other
  source row changes. Nothing is said about a source name that names an inherited
  property of the \<open>scrapers\<close> object, nor about an enqueue that throws after the commit.
\<close>

theorem failure_count_changes:
  "(CheckSourceDataSchema (is_uuid env) data = None \<longrightarrow>
      fst (snd (processSyncSource env data d)) = d)
  \<and> (CheckSourceDataSchema (is_uuid env) data = Some i \<and> findUnique_source d i = None \<longrightarrow>
      fst (snd (processSyncSource env data d)) = d)
  \<and> (CheckSourceDataSchema (is_uuid env) data = Some i \<and> findUnique_source d i = Some source \<longrightarrow>
      (failure_count source \<ge> MAX_CONSECUTIVE_FAILURES \<longrightarrow>
         failure_count_of (fst (snd (processSyncSource env data d))) i = Some (failure_count source))
    \<and> (failure_count source < MAX_CONSECUTIVE_FAILURES \<and>
       \<not> validateSourceUrl (hostname env) (source_url source) \<longrightarrow>
         failure_count_of (fst (snd (processSyncSource env data d))) i
           = Some (failure_count source + 1))
    \<and> (failure_count source < MAX_CONSECUTIVE_FAILURES \<and>
       validateSourceUrl (hostname env) (source_url source) \<longrightarrow>
        (scrapers (toLowerCase env (source_name source)) = Undefined \<longrightarrow>
           failure_count_of (fst (snd (processSyncSource env data d))) i
             = Some (failure_count source))
      \<and> (\<forall>k. scrapers (toLowerCase env (source_name source)) = Scraper k \<longrightarrow>
          (\<forall>e. scrapeSeries env k (source_id source) = Inl e \<longrightarrow>
             failure_count_of (fst (snd (processSyncSource env data d))) i
               = Some (failure_count source + 1))
        \<and> (\<forall>chapters. scrapeSeries env k (source_id source) = Inr chapters \<longrightarrow>
            (transaction_error env \<noteq> None \<longrightarrow>
               failure_count_of (fst (snd (processSyncSource env data d))) i
                 = Some (failure_count source + 1))
          \<and> (transaction_error env = None \<and>
               (add_error env = None \<or> snd (sync_transaction (now env) source chapters d) = 0) \<longrightarrow>
               fst (processSyncSource env data d) = Inr () \<and>
               failure_count_of (fst (snd (processSyncSource env data d))) i = Some 0))))
    \<and> (\<forall>j. j \<noteq> i \<longrightarrow>
        findUnique_source (fst (snd (processSyncSource env data d))) j = findUnique_source d j))"
proof (intro conjI impI allI; (elim conjE)?)
  assume "CheckSourceDataSchema (is_uuid env) data = None"
  then show "fst (snd (processSyncSource env data d)) = d"
    by (simp add: processSyncSource_def)
next
  assume "CheckSourceDataSchema (is_uuid env) data = Some i" "findUnique_source d i = None"
  then show "fst (snd (processSyncSource env data d)) = d"
    by (simp add: processSyncSource_def)
next
  assume valid: "CheckSourceDataSchema (is_uuid env) data = Some i"
    and found: "findUnique_source d i = Some source"
    and "failure_count source \<ge> MAX_CONSECUTIVE_FAILURES"
  then show "failure_count_of (fst (snd (processSyncSource env data d))) i = Some (failure_count source)"
    using findUnique_source_id [OF found]
    by (simp add: processSyncSource_def findUnique_update_source failure_count_of_def)
next
  assume valid: "CheckSourceDataSchema (is_uuid env) data = Some i"
    and found: "findUnique_source d i = Some source"
    and "failure_count source < MAX_CONSECUTIVE_FAILURES"
       "\<not> validateSourceUrl (hostname env) (source_url source)"
  then show "failure_count_of (fst (snd (processSyncSource env data d))) i
           = Some (failure_count source + 1)"
    using findUnique_source_id [OF found]
    by (simp add: processSyncSource_def findUnique_update_source failure_count_of_def)
next
  assume valid: "CheckSourceDataSchema (is_uuid env) data = Some i"
    and found: "findUnique_source d i = Some source"
    and "failure_count source < MAX_CONSECUTIVE_FAILURES"
       "validateSourceUrl (hostname env) (source_url source)"
       "scrapers (toLowerCase env (source_name source)) = Undefined"
  then show "failure_count_of (fst (snd (processSyncSource env data d))) i
           = Some (failure_count source)"
    by (simp add: processSyncSource_def failure_count_of_def)
next
  fix k e
  assume valid: "CheckSourceDataSchema (is_uuid env) data = Some i"
    and found: "findUnique_source d i = Some source"
    and "failure_count source < MAX_CONSECUTIVE_FAILURES"
       "validateSourceUrl (hostname env) (source_url source)"
       "scrapers (toLowerCase env (source_name source)) = Scraper k"
       "scrapeSeries env k (source_id source) = Inl e"
  then show "failure_count_of (fst (snd (processSyncSource env data d))) i
           = Some (failure_count source + 1)"
    using findUnique_source_id [OF found]
    by (simp add: processSyncSource_def failure_count_of_def sync_catch_source)
next
  fix k chapters
  assume valid: "CheckSourceDataSchema (is_uuid env) data = Some i"
    and found: "findUnique_source d i = Some source"
    and "failure_count source < MAX_CONSECUTIVE_FAILURES"
       "validateSourceUrl (hostname env) (source_url source)"
       "scrapers (toLowerCase env (source_name source)) = Scraper k"
       "scrapeSeries env k (source_id source) = Inr chapters"
       "transaction_error env \<noteq> None"
  then show "failure_count_of (fst (snd (processSyncSource env data d))) i
           = Some (failure_count source + 1)"
    using findUnique_source_id [OF found]
    by (auto simp: processSyncSource_def failure_count_of_def sync_catch_source)
next
  fix k chapters
  assume valid: "CheckSourceDataSchema (is_uuid env) data = Some i"
    and found: "findUnique_source d i = Some source"
    and pre: "failure_count source < MAX_CONSECUTIVE_FAILURES"
       "validateSourceUrl (hostname env) (source_url source)"
       "scrapers (toLowerCase env (source_name source)) = Scraper k"
       "scrapeSeries env k (source_id source) = Inr chapters"
       "transaction_error env = None"
    and ok: "add_error env = None \<or> snd (sync_transaction (now env) source chapters d) = 0"
  have sid: "src_id source = i" using found by (rule findUnique_source_id)
  obtain d' result where tx: "sync_transaction (now env) source chapters d = (d', result)"
    by (cases "sync_transaction (now env) source chapters d")
  have run: "processSyncSource env data d =
      (Inr (), d', if result > 0
         then [ScrapeSeries k (source_id source), notification_job (now env) source result]
         else [ScrapeSeries k (source_id source)])"
    using ok tx by (auto simp: processSyncSource_scraped [OF valid found pre tx])
  from sync_transaction_source [OF found sid, of "now env" chapters] tx
  have "failure_count_of d' i = Some 0" by (simp add: failure_count_of_def)
  with run show "fst (processSyncSource env data d) = Inr ()"
    and "failure_count_of (fst (snd (processSyncSource env data d))) i = Some 0"
    by simp_all
next
  fix j
  assume "CheckSourceDataSchema (is_uuid env) data = Some i" "j \<noteq> i"
  then show "findUnique_source (fst (snd (processSyncSource env data d))) j = findUnique_source d j"
    by (rule processSyncSource_other)
qed

theorem failure_count_changes_witness:
  "CheckSourceDataSchema (is_uuid ex_env) ex_job = Some uuid_a
   \<and> findUnique_source ex_db uuid_a = Some ex_source
   \<and> failure_count ex_source < MAX_CONSECUTIVE_FAILURES
   \<and> validateSourceUrl (hostname ex_env) (source_url ex_source)
   \<and> scrapers (toLowerCase ex_env (source_name ex_source)) = Scraper ''mangadex''
   \<and> scrapeSeries ex_env ''mangadex'' (source_id ex_source) = Inr ex_scraped
   \<and> transaction_error ex_env = None \<and> add_error ex_env = None
   \<and> fst (processSyncSource ex_env ex_job ex_db) = Inr ()
   \<and> failure_count_of (fst (snd (processSyncSource ex_env ex_job ex_db))) uuid_a = Some 0
   \<and> CheckSourceDataSchema (is_uuid ex_env_bad_url) ex_job = Some uuid_a
   \<and> \<not> validateSourceUrl (hostname ex_env_bad_url) (source_url ex_source)
   \<and> failure_count_of (fst (snd (processSyncSource ex_env_bad_url ex_job ex_db))) uuid_a = Some 3"
proof -
  have v: "CheckSourceDataSchema (is_uuid ex_env) ex_job = Some uuid_a"
    and v': "CheckSourceDataSchema (is_uuid ex_env_bad_url) ex_job = Some uuid_a"
    by (simp_all add: ex_env_bad_url_def ex_env_def ex_job_valid)
  have facts: "failure_count ex_source < MAX_CONSECUTIVE_FAILURES"
    "failure_count ex_source = 2"
    "validateSourceUrl (hostname ex_env) (source_url ex_source)"
    "scrapers (toLowerCase ex_env (source_name ex_source)) = Scraper ''mangadex''"
    "scrapeSeries ex_env ''mangadex'' (source_id ex_source) = Inr ex_scraped"
    "transaction_error ex_env = None" "add_error ex_env = None"
    "\<not> validateSourceUrl (hostname ex_env_bad_url) (source_url ex_source)"
    by (simp_all add: ex_source_def MAX_CONSECUTIVE_FAILURES_def validateSourceUrl_def
          ALLOWED_HOSTS_def ex_env_def ex_env_bad_url_def ex_lower scrapers_def)
  from failure_count_changes [of ex_env ex_job ex_db uuid_a ex_source]
    failure_count_changes [of ex_env_bad_url ex_job ex_db uuid_a ex_source]
    v v' ex_found facts
  show ?thesis by simp
qed
section \<open>Verification: downstream failures after the commit\<close>

text \<open>
  In general: when the transaction has inserted chapters and the enqueue then throws, the
  handler rethrows the error, the inserted chapters stay, the failure counter of the source
  is 1, and the queue schedules a retry while attempts remain.
\<close>

lemma sync_enqueue_failure_rethrown:
  assumes "CheckSourceDataSchema (is_uuid env) data = Some i"
    and "findUnique_source d i = Some source"
    and "failure_count source < MAX_CONSECUTIVE_FAILURES"
    and "validateSourceUrl (hostname env) (source_url source)"
    and "scrapers (toLowerCase env (source_name source)) = Scraper k"
    and "scrapeSeries env k (source_id source) = Inr chapters"
    and "transaction_error env = None"
    and "sync_transaction (now env) source chapters d = (d', result)"
    and "result > 0" and "add_error env = Some e" and "error_isRetryable e"
  shows "fst (processSyncSource env data d) = Inl e"
    and "chapterTable (fst (snd (processSyncSource env data d))) = chapterTable d'"
    and "failure_count_of (fst (snd (processSyncSource env data d))) i = Some 1"
    and "attempt < syncSourceQueue_attempts \<Longrightarrow>
           queue_decides syncSourceQueue_attempts attempt (fst (processSyncSource env data d))
             = RetryScheduled"
proof -
  have sid: "src_id source = i" using assms(2) by (rule findUnique_source_id)
  have run: "processSyncSource env data d =
      sync_catch (now env) source e d' [ScrapeSeries k (source_id source)]"
    using assms(9,10) by (simp add: processSyncSource_scraped [OF assms(1-8)])
  show out: "fst (processSyncSource env data d) = Inl e"
    using assms(11) by (simp add: run sync_catch_def Let_def)
  show "chapterTable (fst (snd (processSyncSource env data d))) = chapterTable d'"
    by (simp add: run sync_catch_def Let_def)
  from sync_transaction_source [OF assms(2) sid, of "now env" chapters] assms(8)
  have "findUnique_source d' i = Some (source\<lparr>last_checked_at := Some (now env),
       last_success_at := Some (now env),
       source_chapter_count := source_chapter_count source + int result, failure_count := 0\<rparr>)"
    by simp
  from sync_catch_source [OF this sid, of "now env" e "[ScrapeSeries k (source_id source)]"]
  show "failure_count_of (fst (snd (processSyncSource env data d))) i = Some 1"
    by (simp add: run failure_count_of_def)
  show "queue_decides syncSourceQueue_attempts attempt (fst (processSyncSource env data d))
             = RetryScheduled" if "attempt < syncSourceQueue_attempts"
    using that by (simp add: out queue_decides_def)
qed

text \<open>
  C4 on the sync path: \<open>notificationQueue.add\<close> is awaited inside the \<open>try\<close> block, so
  when it throws after the transaction has committed, the \<open>catch\<close> block counts a failure
  on the source (0 becomes 1) and rethrows, and the queue schedules a retry. The chapters
  stay stored; the retry finds nothing new and enqueues no notification.
\<close>

theorem sync_enqueue_failure_fails_job:
  "processSyncSource ex_env_queue_down ex_job ex_db =
     (Inl (Error ''Connection is closed.''), ex_db_after_failed_enqueue,
      [ScrapeSeries ''mangadex'' ''x1''])
   \<and> queue_decides syncSourceQueue_attempts 1
        (fst (processSyncSource ex_env_queue_down ex_job ex_db)) = RetryScheduled
   \<and> map_option failure_count (findUnique_source ex_db_after_failed_enqueue uuid_a) = Some 1
   \<and> processSyncSource (ex_env\<lparr>now := 6000\<rparr>) ex_job ex_db_after_failed_enqueue =
     (Inr (),
      ex_db_after_failed_enqueue\<lparr>seriesSource :=
        [ex_source\<lparr>last_checked_at := Some 6000, last_success_at := Some 6000,
               source_chapter_count := 2, failure_count := 0\<rparr>]\<rparr>,
      [ScrapeSeries ''mangadex'' ''x1''])"
proof -
  have facts: "failure_count ex_source < MAX_CONSECUTIVE_FAILURES"
    "validateSourceUrl (hostname ex_env_queue_down) (source_url ex_source)"
    "scrapers (toLowerCase ex_env_queue_down (source_name ex_source)) = Scraper ''mangadex''"
    "scrapeSeries ex_env_queue_down ''mangadex'' (source_id ex_source) = Inr ex_scraped"
    "transaction_error ex_env_queue_down = None"
    "CheckSourceDataSchema (is_uuid ex_env_queue_down) ex_job = Some uuid_a"
    "now ex_env_queue_down = 1000" "source_id ex_source = ''x1''"
    "add_error ex_env_queue_down = Some (Error ''Connection is closed.'')"
    by (simp_all add: ex_source_def MAX_CONSECUTIVE_FAILURES_def validateSourceUrl_def
          ALLOWED_HOSTS_def ex_env_def ex_env_queue_down_def ex_lower scrapers_def ex_job_valid)
  have tx: "sync_transaction (now ex_env_queue_down) ex_source ex_scraped ex_db = (ex_db_synced, 1)"
    by (simp add: facts ex_first_run ex_db_synced_def)
  have 1: "processSyncSource ex_env_queue_down ex_job ex_db =
     (Inl (Error ''Connection is closed.''), ex_db_after_failed_enqueue,
      [ScrapeSeries ''mangadex'' ''x1''])"
    unfolding processSyncSource_scraped [OF facts(6) ex_found facts(1,2,3,4,5) tx]
    by (simp add: facts sync_catch_def error_isRetryable_def update_source_def
          ex_db_after_failed_enqueue_def ex_db_synced_def ex_db_def ex_source_def)
  have 2: "queue_decides syncSourceQueue_attempts 1 (Inl (Error ''Connection is closed.'') :: unit outcome)
             = RetryScheduled"
    by (simp add: queue_decides_def syncSourceQueue_attempts_def)
  have 3: "map_option failure_count (findUnique_source ex_db_after_failed_enqueue uuid_a) = Some 1"
    by (simp add: findUnique_source_def ex_db_after_failed_enqueue_def ex_db_def ex_source_def)
  have 4: "processSyncSource (ex_env\<lparr>now := 6000\<rparr>) ex_job ex_db_after_failed_enqueue =
     (Inr (),
      ex_db_after_failed_enqueue\<lparr>seriesSource :=
        [ex_source\<lparr>last_checked_at := Some 6000, last_success_at := Some 6000,
               source_chapter_count := 2, failure_count := 0\<rparr>]\<rparr>,
      [ScrapeSeries ''mangadex'' ''x1''])"
    by (simp add: processSyncSource_def ex_env_def ex_job_valid findUnique_source_def
          ex_db_after_failed_enqueue_def ex_db_def ex_source_def MAX_CONSECUTIVE_FAILURES_def
          validateSourceUrl_def ALLOWED_HOSTS_def ex_lower scrapers_def sync_transaction_def
          existingNumbers_def ex_scraped_def ex_row_def update_source_def Let_def)
  from 1 2 3 4 show ?thesis by simp
qed
section \<open>Verification: invalid payloads\<close>

text \<open>In general: every invalid sync payload makes the handler throw without any change.\<close>

lemma sync_invalid_payload_throws:
  assumes "CheckSourceDataSchema (is_uuid env) data = None"
  shows "processSyncSource env data d = (Inl (Error ''Invalid job payload''), d, [])"
    and "attempt < syncSourceQueue_attempts \<Longrightarrow>
           queue_decides syncSourceQueue_attempts attempt (fst (processSyncSource env data d))
             = RetryScheduled"
  using assms by (simp_all add: processSyncSource_def queue_decides_def)

text \<open>
  C10 on the sync path: an invalid payload makes the handler throw, and the queue retries
  a throwing job while attempts remain (3 for the sync queue). No stored row changes.
\<close>

theorem sync_invalid_payload_is_retried:
  "CheckSourceDataSchema (is_uuid ex_env) ex_job_invalid = None
   \<and> processSyncSource ex_env ex_job_invalid ex_db = (Inl (Error ''Invalid job payload''), ex_db, [])
   \<and> queue_decides syncSourceQueue_attempts 1 (fst (processSyncSource ex_env ex_job_invalid ex_db))
       = RetryScheduled
   \<and> queue_decides syncSourceQueue_attempts 2 (fst (processSyncSource ex_env ex_job_invalid ex_db))
       = RetryScheduled
   \<and> queue_decides syncSourceQueue_attempts 3 (fst (processSyncSource ex_env ex_job_invalid ex_db))
       = FailedTerminal"
proof -
  have 1: "CheckSourceDataSchema (is_uuid ex_env) ex_job_invalid = None"
    by (simp add: CheckSourceDataSchema_def ex_env_def ex_job_invalid_def uuid_shape_def)
  then have 2: "processSyncSource ex_env ex_job_invalid ex_db = (Inl (Error ''Invalid job payload''), ex_db, [])"
    by (simp add: processSyncSource_def)
  show ?thesis using 1 2 by (simp add: queue_decides_def syncSourceQueue_attempts_def)
qed

section \<open>Verification: the canonicalization merge\<close>

lemma ex_match:
  "match_series (title_equals_insensitive ex_canon_env) ex_canon_db ex_canon_job = Some ex_series"
  by (simp add: match_series_def ex_canon_db_def ex_canon_job_def ex_series_def truthy_def)

lemma ex_merge:
  "merge_series ex_series ex_canon_job ex_series =
     ex_series\<lparr>alternative_titles := [''Na Honjaman Level Up'', ''Only I Level Up'', ''Solo Leveling''],
               content_rating := Some ''erotica''\<rparr>"
  by (simp add: merge_series_def ex_series_def ex_canon_job_def js_or_def truthy_def prisma_set_def
        shouldUpdateCover_def mergedAltTitles_def array_from_set_def default_list_def)

text \<open>
  C3 fails on the content rating: the update data is \<open>content_rating || series.content_rating\<close>,
  the operands the other way round than for the sibling fields, so an incoming rating
  replaces a stored one. Here the stored series is rated \<open>safe\<close> and the candidate
  \<open>erotica\<close>; after the job the series is rated \<open>erotica\<close>, while description, status and
  genres keep their stored values.
\<close>

theorem merge_overwrites_content_rating:
  "match_series (title_equals_insensitive ex_canon_env) ex_canon_db ex_canon_job = Some ex_series
   \<and> content_rating ex_series = Some ''safe''
   \<and> job_content_rating ex_canon_job = Some ''erotica''
   \<and> map content_rating (seriesTable (fst (snd (processCanonicalize ex_canon_env ex_canon_job ex_canon_db))))
       = [Some ''erotica'']
   \<and> map description (seriesTable (fst (snd (processCanonicalize ex_canon_env ex_canon_job ex_canon_db))))
       = [Some ''A weak hunter.'']
   \<and> map status (seriesTable (fst (snd (processCanonicalize ex_canon_env ex_canon_job ex_canon_db))))
       = [Some ''completed'']
   \<and> map genres (seriesTable (fst (snd (processCanonicalize ex_canon_env ex_canon_job ex_canon_db))))
       = [[''Action'']]"
proof -
  have te: "c_transaction_error ex_canon_env = None" by (simp add: ex_canon_env_def)
  have "seriesTable (fst (snd (processCanonicalize ex_canon_env ex_canon_job ex_canon_db)))
          = [merge_series ex_series ex_canon_job ex_series]"
    by (simp add: processCanonicalize_def canonicalize_transaction_def ex_match Let_def te)
       (simp add: ex_canon_db_def)
  then show ?thesis
    by (simp add: ex_match ex_merge) (simp add: ex_series_def ex_canon_job_def)
qed

text \<open>
  What the merge does in general: description, status and external catalog id keep a
  stored non-empty value, the genre list is replaced only when it is empty, and a
  non-empty incoming content rating always wins.
\<close>

lemma merge_keeps_filled_fields:
  "(truthy (description s) \<longrightarrow> description (merge_series s job s) = description s)
   \<and> (truthy (status s) \<longrightarrow> status (merge_series s job s) = status s)
   \<and> (truthy (mangadex_id s) \<longrightarrow> mangadex_id (merge_series s job s) = mangadex_id s)
   \<and> (genres s \<noteq> [] \<longrightarrow> genres (merge_series s job s) = genres s)
   \<and> (genres s = [] \<longrightarrow> genres (merge_series s job s) = default_list (job_genres job))
   \<and> (truthy (job_content_rating job) \<longrightarrow>
        content_rating (merge_series s job s) = job_content_rating job)"
  by (auto simp: merge_series_def js_or_def prisma_set_def truthy_def split: option.splits)

text \<open>
  The canonicalization side of C4: a broadcast that throws changes neither the value the
  handler returns nor the store, and the job completes.
\<close>

lemma canonicalize_broadcast_failure_swallowed:
  assumes "c_transaction_error env = None"
  shows "fst (processCanonicalize (env\<lparr>broadcast_error := Some e\<rparr>) job d)
           = fst (processCanonicalize (env\<lparr>broadcast_error := None\<rparr>) job d)
       \<and> fst (snd (processCanonicalize (env\<lparr>broadcast_error := Some e\<rparr>) job d))
           = fst (snd (processCanonicalize (env\<lparr>broadcast_error := None\<rparr>) job d))
       \<and> (\<exists>r. fst (processCanonicalize (env\<lparr>broadcast_error := Some e\<rparr>) job d) = Inr r)
       \<and> queue_decides canonicalizeQueue_attempts attempt
            (fst (processCanonicalize (env\<lparr>broadcast_error := Some e\<rparr>) job d)) = Completed"
  using assms
  by (simp add: processCanonicalize_def canonicalize_transaction_def Let_def case_prod_beta
        queue_decides_def split: option.splits)

section \<open>Verification: notification deduplication\<close>

lemma window_clash_sym: "window_clash x y \<longleftrightarrow> window_clash y x"
  by (auto simp: window_clash_def abs_minus_commute)

lemma no_window_duplicates_append:
  "no_window_duplicates (xs @ ys) \<longleftrightarrow>
     no_window_duplicates xs \<and> no_window_duplicates ys \<and>
     (\<forall>x\<in>set xs. \<forall>y\<in>set ys. \<not> window_clash x y)"
  by (induction xs) (auto simp: list_ex_iff)

lemma toCreate_user_ids:
  "map user_id (notificationsToCreate env i src n s d) =
     filter (\<lambda>u. u \<notin> user_id ` set (existingNotifications (n_now env) d i))
       (map le_user_id (subscribers d i))"
  by (simp add: notificationsToCreate_def Let_def filter_map comp_def)

lemma toCreate_fields:
  "x \<in> set (notificationsToCreate env i src n s d) \<Longrightarrow>
     ntype x = ''NEW_CHAPTER'' \<and> nseries_id x = i \<and> created_at x = n_now env"
  by (auto simp: notificationsToCreate_def Let_def)

lemma no_window_duplicates_distinct_users:
  "distinct (map user_id xs) \<Longrightarrow> no_window_duplicates xs"
  by (induction xs) (auto simp: list_ex_iff window_clash_def)

lemma toCreate_no_clash_with_table:
  assumes "x \<in> set (notificationsToCreate env i src n s d)" "y \<in> set (notificationTable d)"
  shows "\<not> window_clash y x"
proof
  assume c: "window_clash y x"
  from toCreate_fields [OF assms(1)] have fx: "nseries_id x = i" "created_at x = n_now env" by simp_all
  from assms(1) have "user_id x \<in> set (map user_id (notificationsToCreate env i src n s d))" by simp
  then have notin: "user_id x \<notin> user_id ` set (existingNotifications (n_now env) d i)"
    unfolding toCreate_user_ids by simp
  from c fx have "user_id y = user_id x" "nseries_id y = i" "ntype y = ''NEW_CHAPTER''"
    "created_at y \<ge> n_now env - idempotency_window_ms"
    by (auto simp: window_clash_def)
  with assms(2) have "y \<in> set (existingNotifications (n_now env) d i)"
    by (simp add: existingNotifications_def)
  then have "user_id y \<in> user_id ` set (existingNotifications (n_now env) d i)" by (rule imageI)
  with \<open>user_id y = user_id x\<close> notin show False by simp
qed

lemma processNotification_table:
  assumes "NotificationJobDataSchema (n_is_uuid env) data = Some (i, src, n)"
    and "find (\<lambda>s. sid s = i) (seriesTable d) = Some s"
  shows "notificationTable (snd (processNotification env data d))
           = notificationTable d @ notificationsToCreate env i src n s d"
  using assms
  by (auto simp: processNotification_def Let_def notificationsToCreate_def)
lemma ex_notif_valid:
  "NotificationJobDataSchema uuid_shape ex_notif_job = Some (uuid_b, uuid_a, 2)"
  by (simp add: NotificationJobDataSchema_def ex_notif_job_def uuid_shape_def is_integer_def)

lemma ex_notif_series: "find (\<lambda>s. sid s = uuid_b) (seriesTable ex_notif_db) = Some ex_series"
  by (simp add: ex_notif_db_def ex_series_def)

lemma ex_notif_subscribers:
  "map le_user_id (subscribers ex_notif_db uuid_b) = [''user-1'', ''user-2'']"
  by (simp add: subscribers_def ex_notif_db_def)

lemma ex_notif_created:
  "map user_id (notificationsToCreate ex_notif_env uuid_b uuid_a 2 ex_series ex_notif_db) = [''user-2'']"
  by (simp add: toCreate_user_ids ex_notif_subscribers)
     (simp add: existingNotifications_def ex_notif_db_def ex_old_notification_def ex_notif_env_def
        idempotency_window_ms_def)

text \<open>
  Runs that do not overlap. For a valid job on an existing series whose subscribers are
  distinct users (one library entry per user and series) and a table that satisfies the
  window invariant: the run appends exactly the rows built for the subscribers who have no
  NEW_CHAPTER notification for the series inside the trailing 5 minutes; it creates at
  most one row per user; no created row goes to a user already notified inside the
  window; the table still satisfies the invariant afterwards; and a second run for the
  same series within 5 minutes of the first creates no row for any user the first run
  notified.
\<close>

lemma notification_dedup_sequential:
  assumes "NotificationJobDataSchema (n_is_uuid env) data = Some (i, src, n)"
    and "find (\<lambda>s. sid s = i) (seriesTable d) = Some s"
    and "distinct (map le_user_id (subscribers d i))"
    and "no_window_duplicates (notificationTable d)"
  shows "notificationTable (snd (processNotification env data d))
           = notificationTable d @ notificationsToCreate env i src n s d
     \<and> distinct (map user_id (notificationsToCreate env i src n s d))
     \<and> set (map user_id (notificationsToCreate env i src n s d))
         \<inter> set (map user_id (existingNotifications (n_now env) d i)) = {}
     \<and> no_window_duplicates (notificationTable (snd (processNotification env data d)))
     \<and> (n_now env \<le> n_now env' \<and> n_now env' \<le> n_now env + idempotency_window_ms \<longrightarrow>
          set (map user_id (notificationsToCreate env' i src' n' s'
                 (snd (processNotification env data d))))
            \<inter> set (map user_id (notificationsToCreate env i src n s d)) = {})"
proof -
  let ?new = "notificationsToCreate env i src n s d"
  let ?d' = "snd (processNotification env data d)"
  have tbl: "notificationTable ?d' = notificationTable d @ ?new"
    by (rule processNotification_table [OF assms(1,2)])
  have dist: "distinct (map user_id ?new)"
    unfolding toCreate_user_ids using assms(3) by (rule distinct_filter)
  have excl: "set (map user_id ?new) \<inter> set (map user_id (existingNotifications (n_now env) d i)) = {}"
    unfolding toCreate_user_ids by auto
  have inv: "no_window_duplicates (notificationTable ?d')"
    unfolding tbl no_window_duplicates_append
    using assms(4) no_window_duplicates_distinct_users [OF dist] toCreate_no_clash_with_table
    by blast
  have rerun: "set (map user_id (notificationsToCreate env' i src' n' s' ?d')) \<inter> set (map user_id ?new) = {}"
    if w: "n_now env \<le> n_now env'" "n_now env' \<le> n_now env + idempotency_window_ms"
  proof -
    have "set ?new \<subseteq> set (existingNotifications (n_now env') ?d' i)"
    proof
      fix x assume x: "x \<in> set ?new"
      from toCreate_fields [OF x] w x show "x \<in> set (existingNotifications (n_now env') ?d' i)"
        by (simp add: existingNotifications_def tbl)
    qed
    then have "user_id ` set ?new \<subseteq> user_id ` set (existingNotifications (n_now env') ?d' i)"
      by blast
    then show ?thesis unfolding toCreate_user_ids [of env'] by auto
  qed
  from tbl dist excl inv rerun show ?thesis by blast
qed

lemma notification_dedup_sequential_example:
  "NotificationJobDataSchema (n_is_uuid ex_notif_env) ex_notif_job = Some (uuid_b, uuid_a, 2)
   \<and> find (\<lambda>s. sid s = uuid_b) (seriesTable ex_notif_db) = Some ex_series
   \<and> distinct (map le_user_id (subscribers ex_notif_db uuid_b))
   \<and> no_window_duplicates (notificationTable ex_notif_db)
   \<and> n_now ex_notif_env \<le> n_now (ex_notif_env\<lparr>n_now := 1200000\<rparr>)
   \<and> n_now (ex_notif_env\<lparr>n_now := 1200000\<rparr>) \<le> n_now ex_notif_env + idempotency_window_ms
   \<and> map user_id (notificationsToCreate ex_notif_env uuid_b uuid_a 2 ex_series ex_notif_db)
       = [''user-2'']
   \<and> map user_id (notificationTable (snd (processNotification ex_notif_env ex_notif_job ex_notif_db)))
       = [''user-1'', ''user-2'']
   \<and> no_window_duplicates
        (notificationTable (snd (processNotification ex_notif_env ex_notif_job ex_notif_db)))
   \<and> set (map user_id (notificationsToCreate (ex_notif_env\<lparr>n_now := 1200000\<rparr>) uuid_b uuid_a 2
              ex_series (snd (processNotification ex_notif_env ex_notif_job ex_notif_db))))
        \<inter> {''user-2''} = {}"
proof -
  have a: "NotificationJobDataSchema (n_is_uuid ex_notif_env) ex_notif_job = Some (uuid_b, uuid_a, 2)"
    by (simp add: ex_notif_env_def ex_notif_valid)
  have c: "distinct (map le_user_id (subscribers ex_notif_db uuid_b))"
    by (simp add: ex_notif_subscribers)
  have e: "no_window_duplicates (notificationTable ex_notif_db)"
    by (simp add: ex_notif_db_def)
  have w: "n_now ex_notif_env \<le> n_now (ex_notif_env\<lparr>n_now := 1200000\<rparr>)"
    "n_now (ex_notif_env\<lparr>n_now := 1200000\<rparr>) \<le> n_now ex_notif_env + idempotency_window_ms"
    by (simp_all add: ex_notif_env_def idempotency_window_ms_def)
  have old: "map user_id (notificationTable ex_notif_db) = [''user-1'']"
    by (simp add: ex_notif_db_def ex_old_notification_def)
  note inst = notification_dedup_sequential [OF a ex_notif_series c e,
      of "ex_notif_env\<lparr>n_now := 1200000\<rparr>" uuid_a 2 ex_series]
  from inst have tbl: "notificationTable (snd (processNotification ex_notif_env ex_notif_job ex_notif_db))
      = notificationTable ex_notif_db
        @ notificationsToCreate ex_notif_env uuid_b uuid_a 2 ex_series ex_notif_db"
    and inv: "no_window_duplicates
        (notificationTable (snd (processNotification ex_notif_env ex_notif_job ex_notif_db)))"
    by blast+
  from inst w have rerun:
    "set (map user_id (notificationsToCreate (ex_notif_env\<lparr>n_now := 1200000\<rparr>) uuid_b uuid_a 2
              ex_series (snd (processNotification ex_notif_env ex_notif_job ex_notif_db))))
        \<inter> set (map user_id (notificationsToCreate ex_notif_env uuid_b uuid_a 2 ex_series ex_notif_db))
       = {}"
    by blast
  have users: "map user_id (notificationTable (snd (processNotification ex_notif_env ex_notif_job ex_notif_db)))
       = [''user-1'', ''user-2'']"
    unfolding tbl by (simp add: old ex_notif_created)
  from rerun have rerun': "set (map user_id (notificationsToCreate (ex_notif_env\<lparr>n_now := 1200000\<rparr>)
              uuid_b uuid_a 2 ex_series (snd (processNotification ex_notif_env ex_notif_job ex_notif_db))))
        \<inter> {''user-2''} = {}"
    unfolding ex_notif_created by simp
  from a ex_notif_series c e w ex_notif_created users inv rerun'
  show ?thesis by blast
qed

text \<open>The two phases, run without interruption, are the handler.\<close>

lemma processNotification_phases:
  "processNotification env data d
     = (Inr (), createMany_notifications (notification_plan env data d) d)"
  by (auto simp: processNotification_def notification_plan_def createMany_notifications_def
        Let_def split: option.splits)

lemma toCreate_projection:
  "map (\<lambda>x. (user_id x, nseries_id x, ntype x, created_at x))
       (notificationsToCreate env i src n s d) =
     map (\<lambda>u. (u, i, ''NEW_CHAPTER'', n_now env))
       (filter (\<lambda>u. u \<notin> user_id ` set (existingNotifications (n_now env) d i))
          (map le_user_id (subscribers d i)))"
  by (simp add: notificationsToCreate_def Let_def filter_map comp_def)

lemma ex_notif_valid2:
  "NotificationJobDataSchema uuid_shape ex_notif_job2 = Some (uuid_b, uuid_c, 1)"
  by (simp add: NotificationJobDataSchema_def ex_notif_job2_def uuid_shape_def is_integer_def)

lemma ex_notif_existing:
  "user_id ` set (existingNotifications 1000000 ex_notif_db uuid_b) = {''user-1''}"
  "user_id ` set (existingNotifications 1000050 ex_notif_db uuid_b) = {''user-1''}"
  by (simp_all add: existingNotifications_def ex_notif_db_def ex_old_notification_def
        idempotency_window_ms_def)

lemma ex_notif_plan1:
  "map (\<lambda>x. (user_id x, nseries_id x, ntype x, created_at x))
       (notification_plan ex_notif_env ex_notif_job ex_notif_db)
     = [(''user-2'', uuid_b, ''NEW_CHAPTER'', 1000000)]"
proof -
  have len: "length (subscribers ex_notif_db uuid_b) = 2"
    using arg_cong [OF ex_notif_subscribers, of length] by simp
  have "notification_plan ex_notif_env ex_notif_job ex_notif_db
          = notificationsToCreate ex_notif_env uuid_b uuid_a 2 ex_series ex_notif_db"
    by (simp add: notification_plan_def ex_notif_env_def ex_notif_valid ex_notif_series len)
  then show ?thesis
    by (simp add: toCreate_projection ex_notif_subscribers)
       (simp add: ex_notif_env_def ex_notif_existing)
qed

lemma ex_notif_plan2:
  "map (\<lambda>x. (user_id x, nseries_id x, ntype x, created_at x))
       (notification_plan ex_notif_env2 ex_notif_job2 ex_notif_db)
     = [(''user-2'', uuid_b, ''NEW_CHAPTER'', 1000050)]"
proof -
  have len: "length (subscribers ex_notif_db uuid_b) = 2"
    using arg_cong [OF ex_notif_subscribers, of length] by simp
  have "notification_plan ex_notif_env2 ex_notif_job2 ex_notif_db
          = notificationsToCreate ex_notif_env2 uuid_b uuid_c 1 ex_series ex_notif_db"
    by (simp add: notification_plan_def ex_notif_env2_def ex_notif_valid2 ex_notif_series len)
  then show ?thesis
    by (simp add: toCreate_projection ex_notif_subscribers)
       (simp add: ex_notif_env2_def ex_notif_existing)
qed

lemma no_window_duplicates_projection:
  assumes "map (\<lambda>x. (user_id x, nseries_id x, ntype x, created_at x)) xs
             = map (\<lambda>x. (user_id x, nseries_id x, ntype x, created_at x)) ys"
  shows "no_window_duplicates xs = no_window_duplicates ys"
  using assms
proof (induction xs arbitrary: ys)
  case Nil
  then show ?case by simp
next
  case (Cons x xs)
  then obtain y ys' where ys: "ys = y # ys'" by (cases ys) auto
  with Cons.prems have h: "user_id x = user_id y" "nseries_id x = nseries_id y" "ntype x = ntype y"
    "created_at x = created_at y"
    and t: "map (\<lambda>x. (user_id x, nseries_id x, ntype x, created_at x)) xs
             = map (\<lambda>x. (user_id x, nseries_id x, ntype x, created_at x)) ys'"
    by simp_all
  have "list_ex (window_clash x) xs = list_ex (window_clash y) ys'"
    using t
  proof (induction xs arbitrary: ys')
    case Nil
    then show ?case by simp
  next
    case (Cons a xs)
    then obtain b zs where "ys' = b # zs" by (cases ys') auto
    with Cons show ?case using h by (auto simp: window_clash_def)
  qed
  with Cons.IH [OF t] ys show ?case by simp
qed

text \<open>
  C6 fails when two handlers overlap. The store holds one notification, for user-1, inside
  the window, and satisfies the invariant; user-2 subscribes to the series and has none.
  Two jobs for the series, from two sources, run 50 ms apart: each reads the store before
  the other inserts, each plans a row for user-2, and both rows are inserted. user-2 has
  two NEW_CHAPTER notifications for the series 50 ms apart and the invariant is broken.
  Run one after the other, the same two jobs create one row for user-2.
\<close>

theorem notification_overlap_duplicates:
  "no_window_duplicates (notificationTable ex_notif_db)
   \<and> map (\<lambda>x. (user_id x, nseries_id x, ntype x, created_at x))
        (notification_plan ex_notif_env ex_notif_job ex_notif_db)
       = [(''user-2'', uuid_b, ''NEW_CHAPTER'', 1000000)]
   \<and> map (\<lambda>x. (user_id x, nseries_id x, ntype x, created_at x))
        (notification_plan ex_notif_env2 ex_notif_job2 ex_notif_db)
       = [(''user-2'', uuid_b, ''NEW_CHAPTER'', 1000050)]
   \<and> map (\<lambda>x. (user_id x, nseries_id x, ntype x, created_at x))
        (notificationTable
          (overlapping_notifications ex_notif_env ex_notif_job ex_notif_env2 ex_notif_job2
             ex_notif_db))
       = [(''user-1'', uuid_b, ''NEW_CHAPTER'', 900000),
          (''user-2'', uuid_b, ''NEW_CHAPTER'', 1000000),
          (''user-2'', uuid_b, ''NEW_CHAPTER'', 1000050)]
   \<and> \<not> no_window_duplicates
         (notificationTable
           (overlapping_notifications ex_notif_env ex_notif_job ex_notif_env2 ex_notif_job2
              ex_notif_db))
   \<and> map (\<lambda>x. (user_id x, created_at x))
        (notificationTable
          (snd (processNotification ex_notif_env2 ex_notif_job2
                 (snd (processNotification ex_notif_env ex_notif_job ex_notif_db)))))
       = [(''user-1'', 900000), (''user-2'', 1000000)]"
proof -
  let ?p = "\<lambda>x. (user_id x, nseries_id x, ntype x, created_at x)"
  let ?both = "overlapping_notifications ex_notif_env ex_notif_job ex_notif_env2 ex_notif_job2
                 ex_notif_db"
  have inv: "no_window_duplicates (notificationTable ex_notif_db)"
    by (simp add: ex_notif_db_def)
  have old: "map ?p (notificationTable ex_notif_db) = [(''user-1'', uuid_b, ''NEW_CHAPTER'', 900000)]"
    by (simp add: ex_notif_db_def ex_old_notification_def)
  have ne1: "notification_plan ex_notif_env ex_notif_job ex_notif_db \<noteq> []"
    and ne2: "notification_plan ex_notif_env2 ex_notif_job2 ex_notif_db \<noteq> []"
    using ex_notif_plan1 ex_notif_plan2 by auto
  have tbl: "notificationTable ?both = notificationTable ex_notif_db
      @ notification_plan ex_notif_env ex_notif_job ex_notif_db
      @ notification_plan ex_notif_env2 ex_notif_job2 ex_notif_db"
    using ne1 ne2 by (simp add: overlapping_notifications_def createMany_notifications_def Let_def)
  have both: "map ?p (notificationTable ?both)
       = [(''user-1'', uuid_b, ''NEW_CHAPTER'', 900000),
          (''user-2'', uuid_b, ''NEW_CHAPTER'', 1000000),
          (''user-2'', uuid_b, ''NEW_CHAPTER'', 1000050)]"
    unfolding tbl map_append old ex_notif_plan1 ex_notif_plan2 by simp
  define rows :: "notification list" where
    "rows = map (\<lambda>(u, t). \<lparr>user_id = u, ntype = ''NEW_CHAPTER'', ntitle = [], message = [],
       nseries_id = uuid_b, meta_source_id = [], meta_chapter_count = 0, meta_job_id = [],
       created_at = t\<rparr>) [(''user-1'', 900000), (''user-2'', 1000000), (''user-2'', 1000050)]"
  have "map ?p (notificationTable ?both) = map ?p rows"
    unfolding both by (simp add: rows_def)
  from no_window_duplicates_projection [OF this]
  have broken: "\<not> no_window_duplicates (notificationTable ?both)"
    by (simp add: rows_def window_clash_def idempotency_window_ms_def)
  have first: "notificationTable (snd (processNotification ex_notif_env ex_notif_job ex_notif_db))
      = notificationTable ex_notif_db @ notification_plan ex_notif_env ex_notif_job ex_notif_db"
    using ne1 by (simp add: processNotification_phases createMany_notifications_def)
  let ?d1 = "snd (processNotification ex_notif_env ex_notif_job ex_notif_db)"
  have same: "seriesTable ?d1 = seriesTable ex_notif_db" "libraryEntry ?d1 = libraryEntry ex_notif_db"
    by (simp_all add: processNotification_phases createMany_notifications_def)
  have pu: "map user_id (notification_plan ex_notif_env ex_notif_job ex_notif_db) = [''user-2'']"
    and pt: "map created_at (notification_plan ex_notif_env ex_notif_job ex_notif_db) = [1000000]"
    using arg_cong [OF ex_notif_plan1, of "map fst"]
      arg_cong [OF ex_notif_plan1, of "map (\<lambda>q. snd (snd (snd q)))"]
    by (simp_all add: comp_def)
  have ou: "map user_id (notificationTable ex_notif_db) = [''user-1'']"
    and ot: "map created_at (notificationTable ex_notif_db) = [900000]"
    by (simp_all add: ex_notif_db_def ex_old_notification_def)
  have users1: "map user_id (notificationTable ?d1) = [''user-1'', ''user-2'']"
    unfolding first map_append pu ou by simp
  have times1: "map created_at (notificationTable ?d1) = [900000, 1000000]"
    unfolding first map_append pt ot by simp
  have second: "notification_plan ex_notif_env2 ex_notif_job2 ?d1 = []"
  proof -
    have subs: "subscribers ?d1 uuid_b = subscribers ex_notif_db uuid_b"
      by (simp add: subscribers_def same)
    have all1: "map ?p (notificationTable ?d1)
        = [(''user-1'', uuid_b, ''NEW_CHAPTER'', 900000), (''user-2'', uuid_b, ''NEW_CHAPTER'', 1000000)]"
      unfolding first map_append old ex_notif_plan1 by simp
    have props: "nseries_id x = uuid_b \<and> ntype x = ''NEW_CHAPTER''
              \<and> created_at x \<ge> 1000050 - idempotency_window_ms"
      if "x \<in> set (notificationTable ?d1)" for x
    proof -
      from that have "?p x \<in> set (map ?p (notificationTable ?d1))" by simp
      then show ?thesis unfolding all1 by (auto simp: idempotency_window_ms_def)
    qed
    have "existingNotifications 1000050 ?d1 uuid_b = notificationTable ?d1"
      unfolding existingNotifications_def using props by (intro filter_True) blast
    then have "user_id ` set (existingNotifications 1000050 ?d1 uuid_b) = {''user-1'', ''user-2''}"
      using arg_cong [OF users1, of set] by simp
    then have "map user_id (notificationsToCreate ex_notif_env2 uuid_b uuid_c 1 ex_series ?d1) = []"
      by (simp add: toCreate_user_ids subs ex_notif_subscribers ex_notif_env2_def)
    then show ?thesis
      by (simp add: notification_plan_def ex_notif_env2_def ex_notif_valid2 same ex_notif_series)
  qed
  have seq: "map (\<lambda>x. (user_id x, created_at x))
        (notificationTable (snd (processNotification ex_notif_env2 ex_notif_job2 ?d1)))
       = [(''user-1'', 900000), (''user-2'', 1000000)]"
  proof -
    have "notificationTable (snd (processNotification ex_notif_env2 ex_notif_job2 ?d1))
            = notificationTable ?d1"
      by (simp add: processNotification_phases [of ex_notif_env2] second createMany_notifications_def)
    moreover have "map (\<lambda>x. (user_id x, created_at x)) (notificationTable ?d1)
        = zip (map user_id (notificationTable ?d1)) (map created_at (notificationTable ?d1))"
      by (simp add: zip_map_map zip_same_conv_map)
    ultimately show ?thesis by (simp add: users1 times1)
  qed
  from inv ex_notif_plan1 ex_notif_plan2 both broken seq show ?thesis by blast
qed

text \<open>
  The notification side of C10: an invalid payload makes the handler return, the store is
  unchanged and the job completes.
\<close>

lemma notification_invalid_payload_terminal:
  assumes "NotificationJobDataSchema (n_is_uuid env) data = None"
  shows "processNotification env data d = (Inr (), d)
       \<and> queue_decides notificationQueue_attempts attempt (fst (processNotification env data d))
           = Completed"
  using assms by (simp add: processNotification_def queue_decides_def)

section \<open>Verification: the health gate of the search route\<close>

lemma stale_heartbeat_offline:
  assumes "heartbeat env = Inr (Some hb)" "parseInt env hb = Some t" "r_now env - t \<ge> 15000"
  shows "\<not> areWorkersOnline env"
  using assms by (simp add: areWorkersOnline_def)

lemma absent_heartbeat_offline:
  assumes "heartbeat env = Inr None"
  shows "\<not> areWorkersOnline env"
  using assms by (simp add: areWorkersOnline_def)

lemma saturated_queue_unhealthy:
  assumes "jobCounts' = Inr (w, a, dl)" "\<not> w + a + dl < threshold"
  shows "\<not> isQueueHealthy jobCounts' threshold"
  using assms by (simp add: isQueueHealthy_def)

text \<open>
  C7. For a first-page search with a query, an intent other than NOISE and no active
  cooldown: if the heartbeat key is absent, or its timestamp is more than 15 seconds old,
  or the waiting, active and delayed jobs of the discovery queue together are not fewer
  than 5000, the handler enqueues nothing and answers with status
  \<open>resolving_unavailable\<close> and the local results and their total. A heartbeat older than
  15 seconds makes the liveness check fail whatever the queue counts are.
\<close>

theorem gate_unavailable:
  assumes "intent \<noteq> ''NOISE''" and "truthy query" and "off = 0" and "\<not> truthy (cooldown env)"
    and "heartbeat (workers env) = Inr None
         \<or> (\<exists>hb t. heartbeat (workers env) = Inr (Some hb) \<and> parseInt (workers env) hb = Some t
                \<and> r_now (workers env) - t > 15000)
         \<or> (\<exists>w a dl. jobCounts env = Inr (w, a, dl) \<and> \<not> w + a + dl < 5000)"
  shows "snd (GET env query intent results cnt lmt off) = []
       \<and> resp_status (fst (GET env query intent results cnt lmt off)) = Some ''resolving_unavailable''
       \<and> resp_results (fst (GET env query intent results cnt lmt off)) = results
       \<and> resp_total (fst (GET env query intent results cnt lmt off)) = cnt
       \<and> ((\<exists>hb t. heartbeat (workers env) = Inr (Some hb) \<and> parseInt (workers env) hb = Some t
                \<and> r_now (workers env) - t > 15000)
            \<longrightarrow> \<not> areWorkersOnline (workers env))"
proof -
  from assms(5) have "\<not> areWorkersOnline (workers env) \<or> \<not> isQueueHealthy (jobCounts env) 5000"
  proof (elim disjE exE conjE)
    assume "heartbeat (workers env) = Inr None"
    then show ?thesis by (simp add: absent_heartbeat_offline)
  next
    fix hb t
    assume "heartbeat (workers env) = Inr (Some hb)" "parseInt (workers env) hb = Some t"
      "r_now (workers env) - t > 15000"
    then show ?thesis using stale_heartbeat_offline [of "workers env" hb t] by simp
  next
    fix w a dl
    assume "jobCounts env = Inr (w, a, dl)" "\<not> w + a + dl < 5000"
    then show ?thesis using saturated_queue_unhealthy [of "jobCounts env" w a dl 5000] by simp
  qed
  then have "GET env query intent results cnt lmt off =
      (base_response results cnt lmt off
         \<lparr>resp_status := Some ''resolving_unavailable'',
          resp_message := Some
            ''External search is temporarily unavailable due to high load. Try again later.''\<rparr>, [])"
    using assms(1-4) by (auto simp: GET_def Let_def)
  moreover have "(\<exists>hb t. heartbeat (workers env) = Inr (Some hb) \<and> parseInt (workers env) hb = Some t
                \<and> r_now (workers env) - t > 15000)
            \<longrightarrow> \<not> areWorkersOnline (workers env)"
    using stale_heartbeat_offline [of "workers env"] by force
  ultimately show ?thesis by (simp add: base_response_def)
qed

lemma ex_parse: "ex_parseInt ''1700000000000'' = Some 1700000000000"
  by (simp add: ex_parseInt_def)

theorem gate_unavailable_witness:
  "''PARTIAL_TITLE'' \<noteq> ''NOISE'' \<and> truthy (Some ''solo'') \<and> \<not> truthy (cooldown ex_search_env)
   \<and> heartbeat (workers ex_search_env) = Inr (Some ''1700000000000'')
   \<and> parseInt (workers ex_search_env) ''1700000000000'' = Some 1700000000000
   \<and> r_now (workers ex_search_env) - 1700000000000 > 15000
   \<and> jobCounts ex_search_env = Inr (0, 0, 0)
   \<and> \<not> areWorkersOnline (workers ex_search_env)
   \<and> snd (GET ex_search_env (Some ''solo'') ''PARTIAL_TITLE'' [''local-1'', ''local-2''] 2 20 0) = []
   \<and> resp_status (fst (GET ex_search_env (Some ''solo'') ''PARTIAL_TITLE'' [''local-1'', ''local-2''] 2 20 0))
       = Some ''resolving_unavailable''
   \<and> resp_results (fst (GET ex_search_env (Some ''solo'') ''PARTIAL_TITLE'' [''local-1'', ''local-2''] 2 20 0))
       = [''local-1'', ''local-2'']"
proof -
  have facts: "''PARTIAL_TITLE'' \<noteq> ''NOISE''" "truthy (Some ''solo'')" "(0::nat) = 0"
    "\<not> truthy (cooldown ex_search_env)"
    "heartbeat (workers ex_search_env) = Inr (Some ''1700000000000'')"
    "parseInt (workers ex_search_env) ''1700000000000'' = Some 1700000000000"
    "r_now (workers ex_search_env) - 1700000000000 > 15000"
    "jobCounts ex_search_env = Inr (0, 0, 0)"
    by (simp_all add: truthy_def ex_search_env_def ex_redis_stale_def ex_parse)
  have stale: "heartbeat (workers ex_search_env) = Inr None
         \<or> (\<exists>hb t. heartbeat (workers ex_search_env) = Inr (Some hb)
                \<and> parseInt (workers ex_search_env) hb = Some t
                \<and> r_now (workers ex_search_env) - t > 15000)
         \<or> (\<exists>w a dl. jobCounts ex_search_env = Inr (w, a, dl) \<and> \<not> w + a + dl < 5000)"
    using facts(5,6,7) by blast
  from gate_unavailable [OF facts(1,2,3,4) stale, of "[''local-1'', ''local-2'']" 2 20] facts
  show ?thesis by blast
qed

section \<open>Verification: the master scheduler\<close>

lemma group_and_build_ok:
  assumes "\<forall>s\<in>set ss. sync_priority s \<notin> set object_prototype_keys"
  shows "group_and_build t ss b =
     Inr (map (sync_job_for t) ss,
          \<lparr>HOT = HOT b @ map src_id (filter (\<lambda>s. sync_priority s = ''HOT'') ss),
           WARM = WARM b @ map src_id (filter (\<lambda>s. sync_priority s = ''WARM'') ss),
           COLD = COLD b @ map src_id
                    (filter (\<lambda>s. sync_priority s \<noteq> ''HOT'' \<and> sync_priority s \<noteq> ''WARM'') ss)\<rparr>)"
  using assms
proof (induction ss arbitrary: b)
  case Nil
  then show ?case by simp
next
  case (Cons s ss)
  then show ?case by (simp add: Let_def)
qed

lemma group_and_build_throws:
  assumes "s \<in> set ss" "sync_priority s \<in> set object_prototype_keys"
  shows "\<exists>e. group_and_build t ss b = Inl e"
  using assms
proof (induction ss arbitrary: b)
  case Nil
  then show ?case by simp
next
  case (Cons a ss)
  show ?case
  proof (cases "sync_priority a \<in> set object_prototype_keys")
    case True
    then show ?thesis by simp
  next
    case False
    with Cons.prems have "s \<in> set ss" by auto
    define b' where "b' = (if sync_priority a = ''HOT'' then b\<lparr>HOT := HOT b @ [src_id a]\<rparr>
                   else if sync_priority a = ''WARM'' then b\<lparr>WARM := WARM b @ [src_id a]\<rparr>
                   else b\<lparr>COLD := COLD b @ [src_id a]\<rparr>)"
    from Cons.IH [OF \<open>s \<in> set ss\<close> Cons.prems(2), of b'] obtain e where
      "group_and_build t ss b' = Inl e" by blast
    with False show ?thesis by (simp add: Let_def b'_def [symmetric])
  qed
qed

lemma interval_for_simps:
  "interval_for ''HOT'' = 900000" "interval_for ''WARM'' = 7200000" "interval_for ''COLD'' = 86400000"
  by (simp_all add: interval_for_def SYNC_INTERVALS_def)

lemma interval_for_other:
  "p \<noteq> ''HOT'' \<Longrightarrow> p \<noteq> ''WARM'' \<Longrightarrow> interval_for p = 86400000"
  by (simp add: interval_for_def SYNC_INTERVALS_def)

lemma distinct_map_id_mem:
  assumes "distinct (map src_id xs)" "s \<in> set xs" "r \<in> set xs" "src_id s = src_id r"
  shows "s = r"
  using assms by (meson distinct_map inj_onD)

lemma updateMany_next_check_nil: "updateMany_next_check [] nx d = d"
  by (simp add: updateMany_next_check_def)

lemma batch_updates_eq:
  "batch_updates t b d =
     updateMany_next_check (COLD b) (t + interval_for ''COLD'')
       (updateMany_next_check (WARM b) (t + interval_for ''WARM'')
          (updateMany_next_check (HOT b) (t + interval_for ''HOT'') d))"
  by (cases "HOT b"; cases "WARM b"; cases "COLD b")
     (simp_all add: batch_updates_def updateMany_next_check_nil)

text \<open>
  What a run does when no selected source has a tier named like an inherited property, the
  queue accepts the batch and source ids are unique: it hands one job per selected source
  to the queue, in order, and sets \<open>next_check_at\<close> of exactly the selected sources to the
  run time plus the interval of their tier (24 hours for a tier other than HOT and WARM).
\<close>

lemma scheduler_known_tiers:
  assumes dist: "distinct (map src_id (seriesSource d))"
    and ok: "\<forall>s\<in>set (sourcesToUpdate t d). sync_priority s \<notin> set object_prototype_keys"
  shows "fst (runMasterScheduler t None d) = Inr ()"
    and "snd (snd (runMasterScheduler t None d)) = map (sync_job_for t) (sourcesToUpdate t d)"
    and "seriesSource (fst (snd (runMasterScheduler t None d))) =
           map (\<lambda>s. if s \<in> set (sourcesToUpdate t d)
                     then s\<lparr>next_check_at := Some (t + interval_for (sync_priority s))\<rparr> else s)
             (seriesSource d)"
proof -
  let ?sel = "sourcesToUpdate t d"
  let ?b = "\<lparr>HOT = map src_id (filter (\<lambda>s. sync_priority s = ''HOT'') ?sel),
           WARM = map src_id (filter (\<lambda>s. sync_priority s = ''WARM'') ?sel),
           COLD = map src_id
                    (filter (\<lambda>s. sync_priority s \<noteq> ''HOT'' \<and> sync_priority s \<noteq> ''WARM'') ?sel)\<rparr>"
  have gb: "group_and_build t ?sel \<lparr>HOT = [], WARM = [], COLD = []\<rparr> = Inr (map (sync_job_for t) ?sel, ?b)"
    using group_and_build_ok [OF ok, of t "\<lparr>HOT = [], WARM = [], COLD = []\<rparr>"] by simp
  have run: "runMasterScheduler t None d =
      (if length ?sel = 0 then (Inr (), d, []) else (Inr (), batch_updates t ?b d, map (sync_job_for t) ?sel))"
    by (simp add: runMasterScheduler_def Let_def gb)
  show "fst (runMasterScheduler t None d) = Inr ()" by (simp add: run)
  show "snd (snd (runMasterScheduler t None d)) = map (sync_job_for t) ?sel" by (simp add: run)
  have sub: "set ?sel \<subseteq> set (seriesSource d)"
    by (auto simp: sourcesToUpdate_def dest: in_set_takeD)
  have mem: "src_id r \<in> src_id ` {s \<in> set ?sel. P s} \<longleftrightarrow> r \<in> set ?sel \<and> P r"
    if "r \<in> set (seriesSource d)" for r P
  proof
    assume "src_id r \<in> src_id ` {s \<in> set ?sel. P s}"
    then obtain s where s: "s \<in> set ?sel" "P s" "src_id s = src_id r" by auto
    with sub have "s \<in> set (seriesSource d)" by auto
    from distinct_map_id_mem [OF dist this that s(3)] s show "r \<in> set ?sel \<and> P r" by simp
  next
    assume "r \<in> set ?sel \<and> P r"
    then show "src_id r \<in> src_id ` {s \<in> set ?sel. P s}" by auto
  qed
  have upd: "seriesSource (batch_updates t ?b d) =
           map (\<lambda>s. if s \<in> set ?sel
                     then s\<lparr>next_check_at := Some (t + interval_for (sync_priority s))\<rparr> else s)
             (seriesSource d)"
    unfolding batch_updates_eq
    by (rule nth_equalityI)
       (auto simp: updateMany_next_check_def mem interval_for_simps interval_for_other)
  show "seriesSource (fst (snd (runMasterScheduler t None d))) =
           map (\<lambda>s. if s \<in> set ?sel
                     then s\<lparr>next_check_at := Some (t + interval_for (sync_priority s))\<rparr> else s)
             (seriesSource d)"
  proof (cases "length ?sel = 0")
    case True
    then show ?thesis by (simp add: run map_idI)
  next
    case False
    then show ?thesis by (simp add: run upd)
  qed
qed

lemma ex_sched_selected:
  "sourcesToUpdate 1000000 ex_sched_db =
     [ex_src ''src-1'' ''HOT'' None, ex_src ''src-2'' ''HOT'' (Some 999000),
      ex_src ''src-3'' ''HOT'' (Some 1000000)]"
  by (simp add: sourcesToUpdate_def ex_sched_db_def due_def ex_src_def)

lemma ex_sched_time: "string_of_int 1000000 = ''1000000''"
  by (simp add: string_of_int_def string_of_nat.simps digit_char_def)

text \<open>
  The scenario of C8: three HOT sources are due (the WARM one is not), so three jobs with
  priority 1 are enqueued and each of the three is next checked 15 minutes later.
\<close>

lemma scheduler_three_hot:
  "runMasterScheduler 1000000 None ex_sched_db =
     (Inr (),
      ex_sched_db\<lparr>seriesSource :=
        [ex_src ''src-1'' ''HOT'' (Some 1900000), ex_src ''src-2'' ''HOT'' (Some 1900000),
         ex_src ''src-3'' ''HOT'' (Some 1900000), ex_src ''src-4'' ''WARM'' (Some 1000001)]\<rparr>,
      [\<lparr>job_name = ''sync-src-1'', job_seriesSourceId = ''src-1'',
        jobId = ''sync-src-1-1000000'', priority = 1\<rparr>,
       \<lparr>job_name = ''sync-src-2'', job_seriesSourceId = ''src-2'',
        jobId = ''sync-src-2-1000000'', priority = 1\<rparr>,
       \<lparr>job_name = ''sync-src-3'', job_seriesSourceId = ''src-3'',
        jobId = ''sync-src-3-1000000'', priority = 1\<rparr>])"
  by (simp add: runMasterScheduler_def ex_sched_selected Let_def)
     (simp add: ex_src_def object_prototype_keys_def sync_job_for_def ex_sched_time
        batch_updates_def updateMany_next_check_def interval_for_simps ex_sched_db_def)

text \<open>
  C8 fails for an unknown tier whose name is an inherited property of a plain object: with
  a due source of tier \<open>constructor\<close> among the selected ones, the grouping step throws
  before anything is enqueued, so the run enqueues no job, also none for the three HOT
  sources, and updates no \<open>next_check_at\<close>.
\<close>

theorem scheduler_inherited_tier_throws:
  "sourcesToUpdate 1000000 ex_sched_db_odd =
     [ex_src ''src-1'' ''HOT'' None, ex_src ''src-2'' ''HOT'' (Some 999000),
      ex_src ''src-3'' ''HOT'' (Some 1000000), ex_src ''src-5'' ''constructor'' None]
   \<and> sync_priority (ex_src ''src-5'' ''constructor'' None) \<notin> {''HOT'', ''WARM'', ''COLD''}
   \<and> runMasterScheduler 1000000 None ex_sched_db_odd =
       (Inl (TypeError ''updatesByPriority[priority].push is not a function''), ex_sched_db_odd, [])"
proof -
  have sel: "sourcesToUpdate 1000000 ex_sched_db_odd =
     [ex_src ''src-1'' ''HOT'' None, ex_src ''src-2'' ''HOT'' (Some 999000),
      ex_src ''src-3'' ''HOT'' (Some 1000000), ex_src ''src-5'' ''constructor'' None]"
    by (simp add: sourcesToUpdate_def ex_sched_db_odd_def ex_sched_db_def due_def ex_src_def)
  have "runMasterScheduler 1000000 None ex_sched_db_odd =
       (Inl (TypeError ''updatesByPriority[priority].push is not a function''), ex_sched_db_odd, [])"
    by (simp add: runMasterScheduler_def sel Let_def)
       (simp add: ex_src_def object_prototype_keys_def)
  with sel show ?thesis by (simp add: ex_src_def)
qed

section \<open>Verification: discovery ranking and enqueueing\<close>

lemma map_fst_map_set:
  "map fst (map_set k v m) = (if k \<in> set (map fst m) then map fst m else map fst m @ [k])"
  by (auto simp: map_set_def case_prod_beta)

lemma fold_map_set_keys:
  "map fst (fold (\<lambda>(k, v) m. map_set k v m) es m0) =
     fold (\<lambda>x acc. if x \<in> set acc then acc else acc @ [x]) (map fst es) (map fst m0)"
proof (induction es arbitrary: m0)
  case Nil
  then show ?case by simp
next
  case (Cons e es)
  obtain k v where e: "e = (k, v)" by (cases e)
  show ?case using Cons.IH [of "map_set k v m0"] by (simp add: e map_fst_map_set)
qed

lemma new_Map_keys: "map fst (new_Map es) = array_from_set (map fst es)"
  by (simp add: new_Map_def array_from_set_def fold_map_set_keys)

lemma fold_dedup_props:
  "distinct acc \<Longrightarrow>
     distinct (fold (\<lambda>x acc. if x \<in> set acc then acc else acc @ [x]) xs acc) \<and>
     set (fold (\<lambda>x acc. if x \<in> set acc then acc else acc @ [x]) xs acc) = set acc \<union> set xs"
  by (induction xs arbitrary: acc) auto

lemma array_from_set_props:
  "distinct (array_from_set xs)" "set (array_from_set xs) = set xs"
  using fold_dedup_props [of "[]" xs] by (simp_all add: array_from_set_def)

lemma map_set_keyed:
  assumes "\<forall>(k', c')\<in>set m. k' = f c'" "k = f c"
  shows "\<forall>(k', c')\<in>set (map_set k c m). k' = f c'"
  using assms by (auto simp: map_set_def split: if_splits)

lemma fold_map_set_keyed:
  assumes "\<forall>(k', c')\<in>set m0. k' = f c'"
  shows "\<forall>(k', c')\<in>set (fold (\<lambda>(k, v) m. map_set k v m) (map (\<lambda>c. (f c, c)) cs) m0). k' = f c'"
  using assms
proof (induction cs arbitrary: m0)
  case Nil
  then show ?case by simp
next
  case (Cons c cs)
  have "\<forall>(k', c')\<in>set (map_set (f c) c m0). k' = f c'"
    by (rule map_set_keyed [OF Cons.prems]) simp
  from Cons.IH [OF this] show ?case by simp
qed

lemma uniqueCandidates_ids:
  "map cand_mangadex_id (uniqueCandidates cs) = array_from_set (map cand_mangadex_id cs)"
proof -
  let ?m = "new_Map (map (\<lambda>c. (cand_mangadex_id c, c)) cs)"
  have "\<forall>(k', c')\<in>set ?m. k' = cand_mangadex_id c'"
    unfolding new_Map_def by (rule fold_map_set_keyed) simp
  then have "map cand_mangadex_id (map snd ?m) = map fst ?m" by (auto simp: case_prod_beta)
  then show ?thesis by (simp add: uniqueCandidates_def new_Map_keys comp_def)
qed

lemma rankedCandidates_length [simp]: "length (rankedCandidates u) = length u"
  by (simp add: rankedCandidates_def)

lemma rankedCandidates_nth:
  assumes "i < length u"
  shows "rankedCandidates u ! i =
           candidate.extend (u ! i) (ranked_candidate.fields 100 (int (length u) - int i))"
  using assms by (simp add: rankedCandidates_def)

lemma extend_id [simp]:
  "cand_mangadex_id (candidate.extend c ext) = cand_mangadex_id c"
  by (simp add: candidate.extend_def)

lemma rankedCandidates_ids:
  "map cand_mangadex_id (rankedCandidates u) = map cand_mangadex_id u"
  by (rule nth_equalityI) (simp_all add: rankedCandidates_nth)

lemma rankedCandidates_score:
  "i < length u \<Longrightarrow> score (rankedCandidates u ! i) = int (length u) - int i"
  by (simp add: rankedCandidates_nth candidate.extend_def ranked_candidate.fields_def)

lemma rankedCandidates_confidence:
  "i < length u \<Longrightarrow> confidence (rankedCandidates u ! i) = 100"
  by (simp add: rankedCandidates_nth candidate.extend_def ranked_candidate.fields_def)

lemma rankedCandidates_descending:
  "sorted_wrt (\<lambda>a b. score a > score b) (rankedCandidates u)"
  by (simp add: sorted_wrt_iff_nth_less rankedCandidates_score)

lemma enqueue_all_ok:
  assumes "\<forall>j\<in>set js. add_err j = None"
  shows "enqueue_all add_err js = (None, js)"
  using assms by (induction js) auto

lemma discover_ok:
  assumes "\<forall>j. add_err j = None"
  shows "discover fetch add_err trigger term =
           (Inr (length (uniqueCandidates (candidates fetch term))),
            map (canon_job_for trigger)
              (rankedCandidates (uniqueCandidates (candidates fetch term))))"
  using assms by (simp add: discover_def Let_def enqueue_all_ok)

lemma canon_job_ids:
  "map add_jobId (map (canon_job_for trigger) (rankedCandidates u)) =
     map (\<lambda>c. ''canon_mangadex_'' @ cand_mangadex_id c) u"
proof -
  have "map add_jobId (map (canon_job_for trigger) (rankedCandidates u)) =
          map (\<lambda>i. ''canon_mangadex_'' @ i) (map cand_mangadex_id (rankedCandidates u))"
    by (simp add: canon_job_for_def comp_def)
  then show ?thesis by (simp add: rankedCandidates_ids comp_def)
qed

lemma distinct_map_prefix:
  assumes "distinct (map f xs)"
  shows "distinct (map (\<lambda>c. p @ f c) xs)"
proof -
  from assms have "distinct xs" and "inj_on f (set xs)" by (auto simp: distinct_map)
  then have "inj_on (\<lambda>c. p @ f c) (set xs)" by (auto simp: inj_on_def)
  with \<open>distinct xs\<close> show ?thesis by (simp add: distinct_map)
qed
lemma ex_candidates:
  "candidates ex_fetch ''Solo'' =
     [ex_cand ''md-a'' ''Solo Leveling'', ex_cand ''md-b'' ''Solo Max Level'',
      ex_cand ''md-a'' ''Only I Level Up'']"
  by (simp add: candidates_def MAX_PAGES_def eval_nat_numeral ex_fetch_def PAGE_LIMIT_def)

lemma ex_unique:
  "uniqueCandidates (candidates ex_fetch ''Solo'') =
     [ex_cand ''md-a'' ''Only I Level Up'', ex_cand ''md-b'' ''Solo Max Level'']"
  by (simp add: ex_candidates uniqueCandidates_def new_Map_def map_set_def ex_cand_def)

lemma ex_scores:
  "map score (rankedCandidates (uniqueCandidates (candidates ex_fetch ''Solo''))) = [2, 1]"
  by (simp add: ex_unique rankedCandidates_def candidate.extend_def ranked_candidate.fields_def
        upt_rec)

text \<open>
  What the statements after line 68 would do when the enqueue calls all return: the unique
  candidates have pairwise different external ids, exactly the ids that were collected, in
  the order of their first occurrence; ranking keeps that order and gives scores that
  strictly descend along it; they return the number of unique candidates and add
  one canonicalization job per ranked candidate, in order, under the key
  \<open>canon_mangadex_\<close> followed by the external id, so no two jobs share a key; every job
  has priority 1 when the trigger is \<open>user_search\<close> and 10 otherwise, and 1 is the sooner
  rank.
\<close>

lemma discover_rank_and_enqueue:
  assumes "\<forall>j. add_err j = None"
  shows "distinct (map cand_mangadex_id (uniqueCandidates (candidates fetch term)))
     \<and> map cand_mangadex_id (uniqueCandidates (candidates fetch term))
         = array_from_set (map cand_mangadex_id (candidates fetch term))
     \<and> set (map cand_mangadex_id (uniqueCandidates (candidates fetch term)))
         = set (map cand_mangadex_id (candidates fetch term))
     \<and> map cand_mangadex_id (rankedCandidates (uniqueCandidates (candidates fetch term)))
         = map cand_mangadex_id (uniqueCandidates (candidates fetch term))
     \<and> sorted_wrt (\<lambda>a b. score a > score b)
          (rankedCandidates (uniqueCandidates (candidates fetch term)))
     \<and> discover fetch add_err trigger term =
           (Inr (length (uniqueCandidates (candidates fetch term))),
            map (canon_job_for trigger)
              (rankedCandidates (uniqueCandidates (candidates fetch term))))
     \<and> map add_jobId (snd (discover fetch add_err trigger term))
         = map (\<lambda>c. ''canon_mangadex_'' @ cand_mangadex_id c)
             (uniqueCandidates (candidates fetch term))
     \<and> distinct (map add_jobId (snd (discover fetch add_err trigger term)))
     \<and> map add_priority (snd (discover fetch add_err trigger term))
         = replicate (length (uniqueCandidates (candidates fetch term)))
             (if trigger = Some ''user_search'' then 1 else 10)
     \<and> add_priority (canon_job_for (Some ''user_search'') c)
         < add_priority (canon_job_for (Some ''system_sync'') c)"
proof -
  let ?cs = "candidates fetch term"
  let ?u = "uniqueCandidates ?cs"
  let ?r = "rankedCandidates ?u"
  have ids: "map cand_mangadex_id ?u = array_from_set (map cand_mangadex_id ?cs)"
    by (rule uniqueCandidates_ids)
  have dist: "distinct (map cand_mangadex_id ?u)"
    unfolding ids by (rule array_from_set_props)
  have sets: "set (map cand_mangadex_id ?u) = set (map cand_mangadex_id ?cs)"
    unfolding ids by (rule array_from_set_props)
  have run: "discover fetch add_err trigger term =
      (Inr (length ?u), map (canon_job_for trigger) ?r)"
    by (rule discover_ok [OF assms])
  have jobids: "map add_jobId (snd (discover fetch add_err trigger term))
         = map (\<lambda>c. ''canon_mangadex_'' @ cand_mangadex_id c) ?u"
    unfolding run snd_conv by (rule canon_job_ids)
  have jdist: "distinct (map add_jobId (snd (discover fetch add_err trigger term)))"
    unfolding jobids using dist by (rule distinct_map_prefix)
  have prio: "map add_priority (snd (discover fetch add_err trigger term))
         = replicate (length ?u) (if trigger = Some ''user_search'' then 1 else 10)"
    by (simp add: run comp_def canon_job_for_def map_replicate_const)
  have lt: "add_priority (canon_job_for (Some ''user_search'') c)
         < add_priority (canon_job_for (Some ''system_sync'') c)"
    by (simp add: canon_job_for_def)
  from ids dist sets rankedCandidates_ids [of ?u] rankedCandidates_descending [of ?u]
    run jobids jdist prio lt
  show ?thesis by blast
qed

lemma discover_example:
  "map cand_mangadex_id (candidates ex_fetch ''Solo'') = [''md-a'', ''md-b'', ''md-a'']
   \<and> map cand_mangadex_id (uniqueCandidates (candidates ex_fetch ''Solo'')) = [''md-a'', ''md-b'']
   \<and> map score (rankedCandidates (uniqueCandidates (candidates ex_fetch ''Solo''))) = [2, 1]
   \<and> fst (discover ex_fetch (\<lambda>j. None) (Some ''user_search'') ''Solo'') = Inr 2
   \<and> map add_jobId (snd (discover ex_fetch (\<lambda>j. None) (Some ''user_search'') ''Solo''))
       = [''canon_mangadex_md-a'', ''canon_mangadex_md-b'']
   \<and> map add_priority (snd (discover ex_fetch (\<lambda>j. None) (Some ''user_search'') ''Solo''))
       = [1, 1]"
proof -
  have c: "\<forall>j. (\<lambda>j::canon_add. None :: js_error option) j = None" by simp
  note inst = discover_rank_and_enqueue [OF c, of ex_fetch "''Solo''" "Some ''user_search''"]
  from inst have run: "discover ex_fetch (\<lambda>j. None) (Some ''user_search'') ''Solo'' =
           (Inr (length (uniqueCandidates (candidates ex_fetch ''Solo''))),
            map (canon_job_for (Some ''user_search''))
              (rankedCandidates (uniqueCandidates (candidates ex_fetch ''Solo''))))"
    and ids: "map add_jobId (snd (discover ex_fetch (\<lambda>j. None) (Some ''user_search'') ''Solo''))
         = map (\<lambda>c. ''canon_mangadex_'' @ cand_mangadex_id c)
             (uniqueCandidates (candidates ex_fetch ''Solo''))"
    and prio: "map add_priority (snd (discover ex_fetch (\<lambda>j. None) (Some ''user_search'') ''Solo''))
         = replicate (length (uniqueCandidates (candidates ex_fetch ''Solo'')))
             (if Some ''user_search'' = Some ''user_search'' then 1 else 10)"
    by blast+
  have 1: "map cand_mangadex_id (candidates ex_fetch ''Solo'') = [''md-a'', ''md-b'', ''md-a'']"
    by (simp add: ex_candidates ex_cand_def)
  have 2: "map cand_mangadex_id (uniqueCandidates (candidates ex_fetch ''Solo'')) = [''md-a'', ''md-b'']"
    by (simp add: ex_unique ex_cand_def)
  have 3: "fst (discover ex_fetch (\<lambda>j. None) (Some ''user_search'') ''Solo'') = Inr 2"
    unfolding run by (simp add: ex_unique)
  have 4: "map add_jobId (snd (discover ex_fetch (\<lambda>j. None) (Some ''user_search'') ''Solo''))
       = [''canon_mangadex_md-a'', ''canon_mangadex_md-b'']"
    unfolding ids by (simp add: ex_unique ex_cand_def)
  have 5: "map add_priority (snd (discover ex_fetch (\<lambda>j. None) (Some ''user_search'') ''Solo''))
       = [1, 1]"
    unfolding prio by (simp add: ex_unique)
  from 1 2 ex_scores 3 4 5 show ?thesis by blast
qed


text \<open>
  Every job that has a search term makes the handler throw at line 68, before the first
  request to the catalog, and no canonicalization job is added.
\<close>

lemma processCheckSource_throws:
  assumes "searchTerm data d = Some term" and "term \<noteq> []"
  shows "processCheckSource fetch add_err data d
           = (Inl (ReferenceError ''normalize is not defined''), [])"
  using assms by (simp add: processCheckSource_def normalize_def)

text \<open>
  C9 fails on the code: for the query \<open>Solo\<close>, triggered by a user search, the catalog
  would answer with three results for two external ids and the statements after line 68
  would add the two jobs \<open>canon_mangadex_md-a\<close> and \<open>canon_mangadex_md-b\<close>, but the handler
  throws the ReferenceError of line 68 and adds none. Each of the three attempts of the
  queue ends the same way, the last one terminally.
\<close>

theorem discovery_throws_reference_error:
  "searchTerm ex_check_job ex_canon_db = Some ''Solo''
   \<and> processCheckSource ex_fetch (\<lambda>j. None) ex_check_job ex_canon_db
       = (Inl (ReferenceError ''normalize is not defined''), [])
   \<and> map add_jobId (snd (discover ex_fetch (\<lambda>j. None) (cs_trigger ex_check_job) ''Solo''))
       = [''canon_mangadex_md-a'', ''canon_mangadex_md-b'']
   \<and> queue_decides checkSourceQueue_attempts 1
        (fst (processCheckSource ex_fetch (\<lambda>j. None) ex_check_job ex_canon_db)) = RetryScheduled
   \<and> queue_decides checkSourceQueue_attempts 3
        (fst (processCheckSource ex_fetch (\<lambda>j. None) ex_check_job ex_canon_db)) = FailedTerminal"
proof -
  have a: "searchTerm ex_check_job ex_canon_db = Some ''Solo''"
    by (simp add: searchTerm_def ex_check_job_def truthy_def)
  have run: "processCheckSource ex_fetch (\<lambda>j. None) ex_check_job ex_canon_db
       = (Inl (ReferenceError ''normalize is not defined''), [])"
    by (rule processCheckSource_throws [OF a]) simp
  have t: "cs_trigger ex_check_job = Some ''user_search''" by (simp add: ex_check_job_def)
  from discover_example have ids:
    "map add_jobId (snd (discover ex_fetch (\<lambda>j. None) (cs_trigger ex_check_job) ''Solo''))
       = [''canon_mangadex_md-a'', ''canon_mangadex_md-b'']"
    unfolding t by blast
  from a run ids show ?thesis
    by (simp add: queue_decides_def checkSourceQueue_attempts_def)
qed

end
